theory Spec2Isabelle
  imports Main "HOL-Library.Sublist" "HOL-Library.Word"
begin

section \<open>JavaScript values and string operations\<close>

text \<open>
  Values that handlers receive and return. Numbers are restricted to integers; objects are
  the lists of their own enumerable properties in enumeration order.
\<close>

datatype jsval =
    JUndefined
  | JNull
  | JBool bool
  | JNum int
  | JStr string
  | JArr "jsval list"
  | JObj "(string \<times> jsval) list"

text \<open>Metadata objects (\<open>{ [key: string]: unknown }\<close>) are finite maps; \<open>{...a, ...b}\<close> is \<open>a ++ b\<close>.\<close>

type_synonym meta = "string \<rightharpoonup> jsval"

text \<open>\<open>s || d\<close> on strings: the empty string is falsy.\<close>

definition str_or :: "string \<Rightarrow> string \<Rightarrow> string" where
  "str_or s d = (if s = [] then d else s)"

text \<open>\<open>s || d\<close> where \<open>s\<close> may be \<open>undefined\<close>.\<close>

definition opt_str_or :: "string option \<Rightarrow> string \<Rightarrow> string" where
  "opt_str_or s d = (case s of None \<Rightarrow> d | Some t \<Rightarrow> str_or t d)"

text \<open>\<open>String.prototype.startsWith\<close> is \<^const>\<open>prefix\<close>.\<close>

definition startsWith :: "string \<Rightarrow> string \<Rightarrow> bool" where
  "startsWith s p = prefix p s"

text \<open>\<open>s.includes(t)\<close>: \<open>t\<close> occurs in \<open>s\<close> as a contiguous run.\<close>

fun includes_str :: "string \<Rightarrow> string \<Rightarrow> bool" where
  "includes_str [] t = (t = [])"
| "includes_str (c # cs) t = (prefix t (c # cs) \<or> includes_str cs t)"

text \<open>
  \<open>s.split(sep)\<close> for a non-empty separator: the pieces between the successive
  occurrences of \<open>sep\<close>, found from left to right; \<open>acc\<close> holds the current piece reversed.
  With the empty separator JavaScript cuts between all characters.
\<close>

function split_from :: "string \<Rightarrow> string \<Rightarrow> string \<Rightarrow> string list" where
  "split_from sep acc [] = [rev acc]"
| "split_from sep acc (c # cs) =
     (if sep \<noteq> [] \<and> prefix sep (c # cs)
      then rev acc # split_from sep [] (drop (length sep) (c # cs))
      else split_from sep (c # acc) cs)"
  by pat_completeness auto
termination
  by (relation "measure (\<lambda>(sep, acc, s). length s)") auto

definition split :: "string \<Rightarrow> string \<Rightarrow> string list" where
  "split s sep = (if sep = [] then map (\<lambda>c. [c]) s else split_from sep [] s)"

text \<open>\<open>xs[i]\<close> on an array: \<open>undefined\<close> out of range.\<close>

definition at_index :: "'a list \<Rightarrow> nat \<Rightarrow> 'a option" where
  "at_index xs i = (if i < length xs then Some (xs ! i) else None)"

text \<open>
  Property lookup on a plain object. A key that is not an own property is still found
  when \<open>Object.prototype\<close> has it; every such inherited value is a function or an object.
\<close>

definition object_prototype_keys :: "string list" where
  "object_prototype_keys =
     [''constructor'', ''hasOwnProperty'', ''isPrototypeOf'', ''propertyIsEnumerable'',
      ''toLocaleString'', ''toString'', ''valueOf'', ''__proto__'',
      ''__defineGetter__'', ''__defineSetter__'', ''__lookupGetter__'', ''__lookupSetter__'']"

datatype 'a js_prop = Own 'a | Inherited | Absent

definition get_prop :: "(string \<times> 'a) list \<Rightarrow> string \<Rightarrow> 'a js_prop" where
  "get_prop obj k =
     (case map_of obj k of
        Some v \<Rightarrow> Own v
      | None \<Rightarrow> if k \<in> set object_prototype_keys then Inherited else Absent)"

text \<open>\<open>Object.values\<close> and \<open>Object.keys\<close>.\<close>

definition Object_values :: "(string \<times> 'a) list \<Rightarrow> 'a list" where
  "Object_values obj = map snd obj"

definition Object_keys :: "(string \<times> 'a) list \<Rightarrow> string list" where
  "Object_keys obj = map fst obj"

section \<open>Protocol errors (errors.ts)\<close>

datatype MCPErrorCode =
    PARSE_ERROR
  | RESOURCE_NOT_FOUND
  | INVALID_REQUEST
  | METHOD_NOT_FOUND
  | INVALID_PARAMS
  | INTERNAL_ERROR

text \<open>
  Modelled from the spec: the numeric constants imported from \<open>./types/spec\<close> are not among
  the sources. The specification says that each error kind has a distinct negative numeric
  code; the values below are the JSON-RPC ones, with the protocol's code for a missing
  resource.
\<close>

fun mcpErrors :: "MCPErrorCode \<Rightarrow> int" where
  "mcpErrors PARSE_ERROR = - 32700"
| "mcpErrors RESOURCE_NOT_FOUND = - 32002"
| "mcpErrors INVALID_REQUEST = - 32600"
| "mcpErrors METHOD_NOT_FOUND = - 32601"
| "mcpErrors INVALID_PARAMS = - 32602"
| "mcpErrors INTERNAL_ERROR = - 32603"

fun defaultErrorMessages :: "MCPErrorCode \<Rightarrow> string" where
  "defaultErrorMessages PARSE_ERROR = ''Parse error''"
| "defaultErrorMessages RESOURCE_NOT_FOUND = ''Resource not found''"
| "defaultErrorMessages INVALID_REQUEST = ''Invalid request''"
| "defaultErrorMessages METHOD_NOT_FOUND = ''Method not found''"
| "defaultErrorMessages INVALID_PARAMS = ''Invalid parameters''"
| "defaultErrorMessages INTERNAL_ERROR = ''Internal error''"

record MCPError =
  err_code :: int
  err_message :: string
  err_data :: "jsval option"

definition mcpError' :: "MCPErrorCode \<Rightarrow> string option \<Rightarrow> jsval option \<Rightarrow> MCPError" where
  "mcpError' code message data =
     \<lparr>err_code = mcpErrors code,
      err_message = opt_str_or message (defaultErrorMessages code),
      err_data = data\<rparr>"

abbreviation mcpError :: "MCPErrorCode \<Rightarrow> MCPError" where
  "mcpError code \<equiv> mcpError' code None None"

text \<open>
  What a \<open>throw\<close> can carry: the tool error sentinel, a protocol error (which is an
  \<open>Error\<close>), any other \<open>Error\<close> with its message, or a value that is not an \<open>Error\<close>.
\<close>

datatype thrown =
    ThrownToolError "string option"
  | ThrownMCPError MCPError
  | ThrownError string
  | ThrownValue jsval

section \<open>Widgets (widget.ts)\<close>

record WidgetOptions =
  opt_name :: string
  opt_invoking :: string
  opt_invoked :: string
  opt_description :: string
  opt_prefersBorder :: bool

record Widget =
  widget_id :: string
  widget_options :: WidgetOptions

record ResourceContents =
  rc_uri :: string
  rc_mimeType :: "string option"
  rc_text :: string
  rc_meta :: "meta option"

record ReadResourceResult =
  contents :: "ResourceContents list"

definition toolMetadata :: "Widget \<Rightarrow> meta" where
  "toolMetadata w =
     map_of
       [(''openai/outputTemplate'', JStr (''widget://'' @ widget_id w @ ''.js'')),
        (''openai/toolInvocation/invoking'', JStr (opt_invoking (widget_options w))),
        (''openai/toolInvocation/invoked'', JStr (opt_invoked (widget_options w))),
        (''openai/widgetAccessible'', JBool False),
        (''openai/resultCanProduceWidget'', JBool True)]"

text \<open>
  The bootstrap document of \<open>Widget.result\<close>: the template literal, line by line, each
  line with its number of leading tabs.
\<close>

definition html_line :: "nat \<Rightarrow> string \<Rightarrow> string" where
  "html_line n s = replicate n (CHR 0x09) @ s @ [CHR 0x0A]"

definition widget_html :: "string \<Rightarrow> string \<Rightarrow> string" where
  \<open>widget_html domain name =
     html_line 3 [] @
     html_line 3 ''<html>'' @
     html_line 4 ''<head>'' @
     html_line 5 ''<script>'' @
     html_line 6 ''const reloadWidget = () => {'' @
     html_line 7 ''const previousScript = document.getElementById("widget-script");'' @
     html_line 7 ''if (previousScript) {'' @
     html_line 8 ''// Delete all page content and the script, then load the script again.'' @
     html_line 8 (''document.body.innerHTML = '' @ [CHR 0x27, CHR 0x27] @ '';'') @
     html_line 8 ''previousScript.remove();'' @
     html_line 7 ''}'' @
     html_line 0 [] @
     html_line 7 (''const script = document.createElement('' @ [CHR 0x27] @ ''script''
                  @ [CHR 0x27] @ '');'') @
     html_line 7 ''script.id = "widget-script";'' @
     html_line 7 ''const nonce = Math.random().toString(36).substring(2);'' @
     html_line 7 (''script.src = '' @ [CHR 0x27] @ domain @ ''/widgets/'' @ name @ ''.js?v=''
                  @ [CHR 0x27] @ '' + nonce;'') @
     html_line 7 ''script.nonce = nonce;'' @
     html_line 7 ''document.head.appendChild(script);'' @
     html_line 6 ''};'' @
     html_line 6 ''reloadWidget();'' @
     html_line 6 ''window.reloadWidget = reloadWidget;'' @
     html_line 5 ''</script>'' @
     html_line 4 ''</head>'' @
     html_line 4 ''<body></body>'' @
     html_line 3 ''</html>'' @
     replicate 3 (CHR 0x09)\<close>

definition Widget_result :: "Widget \<Rightarrow> string \<Rightarrow> ReadResourceResult" where
  "Widget_result w domain =
     \<lparr>contents =
        [\<lparr>rc_uri = ''widget://'' @ widget_id w,
          rc_mimeType = Some ''text/html+skybridge'',
          rc_text = widget_html domain (opt_name (widget_options w)),
          rc_meta = Some (map_of
            [(''openai/widgetDescription'',
                JStr (str_or (opt_description (widget_options w)) ''A widget'')),
             (''openai/widgetPrefersBorder'', JBool (opt_prefersBorder (widget_options w))),
             (''openai/widgetDomain'', JStr domain)])\<rparr>]\<rparr>"

section \<open>Resources (resources.ts)\<close>

type_synonym bytes = "8 word list"

text \<open>
  The binary values a handler can return. A \<open>File\<close> is also a \<open>Blob\<close>; a
  \<open>Uint8Array\<close> is given by the bytes of its underlying buffer, which is what gets encoded.
\<close>

datatype binary =
    Blob bytes
  | File bytes
  | ArrayBuffer bytes
  | Uint8Array bytes

text \<open>The built-in \<open>btoa\<close> on a string of byte-valued characters: base64 with padding.\<close>

definition b64_alphabet :: string where
  "b64_alphabet = ''ABCDEFGHIJKLMNOPQRSTUVWXYZabcdefghijklmnopqrstuvwxyz0123456789+/''"

definition b64_digit :: "nat \<Rightarrow> char" where
  "b64_digit n = b64_alphabet ! (n mod 64)"

fun btoa :: "bytes \<Rightarrow> string" where
  "btoa [] = []"
| "btoa [a] =
     [b64_digit (unat a div 4), b64_digit (unat a mod 4 * 16), CHR ''='', CHR ''='']"
| "btoa [a, b] =
     [b64_digit (unat a div 4), b64_digit (unat a mod 4 * 16 + unat b div 16),
      b64_digit (unat b mod 16 * 4), CHR ''='']"
| "btoa (a # b # c # rest) =
     [b64_digit (unat a div 4), b64_digit (unat a mod 4 * 16 + unat b div 16),
      b64_digit (unat b mod 16 * 4 + unat c div 64), b64_digit (unat c mod 64)] @ btoa rest"

fun buffer_of :: "binary \<Rightarrow> bytes" where
  "buffer_of (ArrayBuffer d) = d"
| "buffer_of (Uint8Array d) = d"
| "buffer_of (Blob d) = d"
| "buffer_of (File d) = d"

fun toDataUrl :: "string + binary \<Rightarrow> string \<Rightarrow> string" where
  "toDataUrl (Inl s) mimeType = s"
| "toDataUrl (Inr d) mimeType = ''data:'' @ mimeType @ '';base64,'' @ btoa (buffer_of d)"

record ResourcePayload =
  rp_uri :: string
  rp_sessionId :: string

text \<open>
  What a resource handler hands back: a binary value, a ready-made read result, a protocol
  error built with the payload's \<open>error\<close> helper, or any other value (strings among them).
\<close>

datatype resource_return =
    RetBinary binary
  | RetReadResult ReadResourceResult
  | RetMCPError MCPError
  | RetValue jsval

record Resource =
  res_name :: string
  res_type :: "string option"
  res_uri :: "string option"
  res_description :: "string option"
  res_handler :: "(ResourcePayload \<Rightarrow> thrown + resource_return) option"
  res_meta :: "meta option"

text \<open>The payload's \<open>error\<close> helper of resources.ts.\<close>

definition resource_error :: "MCPErrorCode \<Rightarrow> string option \<Rightarrow> jsval option \<Rightarrow> MCPError" where
  "resource_error code message data = mcpError' code message data"

text \<open>
  \<open>Resource['~call']\<close>. An exception of the handler leaves the function (\<open>Inl\<close>);
  otherwise the result is a protocol error or a read result. A resource without a handler
  yields \<open>undefined\<close>, which is neither a string nor binary.
\<close>

definition Resource_call ::
  "Resource \<Rightarrow> string \<Rightarrow> string \<Rightarrow> thrown + (MCPError + ReadResourceResult)" where
  "Resource_call r uri sessionId =
     (case (case res_handler r of
              None \<Rightarrow> Inr (RetValue JUndefined)
            | Some h \<Rightarrow> h \<lparr>rp_uri = uri, rp_sessionId = sessionId\<rparr>) of
        Inl e \<Rightarrow> Inl e
      | Inr (RetValue (JStr s)) \<Rightarrow>
          Inr (Inr \<lparr>contents =
            [\<lparr>rc_uri = uri, rc_mimeType = res_type r, rc_text = s, rc_meta = None\<rparr>]\<rparr>)
      | Inr (RetBinary d) \<Rightarrow>
          (case res_type r of
             None \<Rightarrow>
               Inr (Inl (resource_error INTERNAL_ERROR (Some ''Resource mimeType not set'')
                           (Some (JObj [(''uri'', JStr uri)]))))
           | Some t \<Rightarrow>
               if t = [] then
                 Inr (Inl (resource_error INTERNAL_ERROR (Some ''Resource mimeType not set'')
                             (Some (JObj [(''uri'', JStr uri)]))))
               else
                 Inr (Inr \<lparr>contents =
                   [\<lparr>rc_uri = uri, rc_mimeType = Some t, rc_text = toDataUrl (Inr d) t,
                     rc_meta = None\<rparr>]\<rparr>))
      | Inr _ \<Rightarrow> Inr (Inl (resource_error RESOURCE_NOT_FOUND None None)))"

text \<open>
  \<open>isTemplate\<close>: the regular expression \<open>/\{[^{}]*\}/\<close> matches somewhere in the uri, that
  is, some opening brace is followed by a run of non-brace characters and a closing brace.
\<close>

definition brace_here :: "string \<Rightarrow> bool" where
  "brace_here s =
     (case s of
        [] \<Rightarrow> False
      | c # cs \<Rightarrow>
          c = CHR ''{'' \<and>
          (case dropWhile (\<lambda>x. x \<noteq> CHR ''{'' \<and> x \<noteq> CHR ''}'') cs of
             [] \<Rightarrow> False
           | d # _ \<Rightarrow> d = CHR ''}''))"

fun isTemplate :: "string \<Rightarrow> bool" where
  "isTemplate [] = False"
| "isTemplate (c # cs) = (brace_here (c # cs) \<or> isTemplate cs)"

record SpecResource =
  sr_name :: string
  sr_uri :: string
  sr_description :: "string option"
  sr_mimeType :: "string option"
  sr_meta :: "meta option"

record ResourceTemplate =
  rt_name :: string
  rt_uriTemplate :: string
  rt_description :: "string option"
  rt_mimeType :: "string option"
  rt_meta :: "meta option"

definition defineResource :: "string \<Rightarrow> Resource \<Rightarrow> SpecResource" where
  "defineResource name r =
     \<lparr>sr_name = name, sr_uri = opt_str_or (res_uri r) name,
      sr_description = res_description r, sr_mimeType = res_type r, sr_meta = res_meta r\<rparr>"

definition defineResourceTemplate :: "string \<Rightarrow> Resource \<Rightarrow> ResourceTemplate" where
  "defineResourceTemplate name r =
     \<lparr>rt_name = name, rt_uriTemplate = opt_str_or (res_uri r) name,
      rt_description = res_description r, rt_mimeType = res_type r, rt_meta = res_meta r\<rparr>"

definition defineResources :: "(string \<times> Resource) list \<Rightarrow> SpecResource list" where
  "defineResources resources =
     map (\<lambda>(key, r). defineResource key r)
       (filter (\<lambda>(key, r). \<not> isTemplate (opt_str_or (res_uri r) [])) resources)"

definition defineResourceTemplates :: "(string \<times> Resource) list \<Rightarrow> ResourceTemplate list" where
  "defineResourceTemplates resources =
     map (\<lambda>(key, r). defineResourceTemplate key r)
       (filter (\<lambda>(key, r). isTemplate (opt_str_or (res_uri r) [])) resources)"

text \<open>
  \<open>Widget.resource\<close> and \<open>defineWidgets\<close> (widget.ts). The setter \<open>type\<close> of a resource
  throws when \<open>validateMimeType\<close> (mime.ts, not among the sources) rejects its argument;
  \<open>text/html+skybridge\<close> is taken to be accepted.
\<close>

definition Widget_resource :: "Widget \<Rightarrow> string \<Rightarrow> Resource" where
  "Widget_resource w domain =
     \<lparr>res_name = opt_name (widget_options w),
      res_type = Some ''text/html+skybridge'',
      res_uri = Some (''widget://'' @ widget_id w @ ''.js''),
      res_description = Some (opt_description (widget_options w)),
      res_handler = Some (\<lambda>p. Inr (RetReadResult (Widget_result w domain))),
      res_meta = Some (map_of
        [(''openai/widgetDescription'', JStr (opt_description (widget_options w))),
         (''openai/widgetPrefersBorder'', JBool (opt_prefersBorder (widget_options w)))])\<rparr>"

definition defineWidgets :: "(string \<times> Widget) list \<Rightarrow> string \<Rightarrow> SpecResource list" where
  "defineWidgets widgets domain =
     map (\<lambda>(key, w). defineResource (widget_id w) (Widget_resource w domain)) widgets"

section \<open>Schemas (toJsonSchema.ts)\<close>

text \<open>
  A validation schema is opaque to the server. What the server uses of it: the vendor
  marker, what \<open>validateInput\<close> does with an input (return the parsed value or throw), and
  what the vendor's own JSON-schema converter returns. \<open>validateInput\<close> and the converters
  are not among the sources, so they are fields of the schema.
\<close>

record Schema =
  sch_vendor :: string
  sch_validate :: "jsval \<Rightarrow> thrown + jsval"
  sch_convert :: "thrown + jsval"

fun truthy :: "jsval \<Rightarrow> bool" where
  "truthy JUndefined = False"
| "truthy JNull = False"
| "truthy (JBool b) = b"
| "truthy (JNum n) = (n \<noteq> 0)"
| "truthy (JStr s) = (s \<noteq> [])"
| "truthy (JArr xs) = True"
| "truthy (JObj es) = True"

text \<open>Reading a data property of a value that is not \<open>undefined\<close> or \<open>null\<close>.\<close>

fun js_get :: "jsval \<Rightarrow> string \<Rightarrow> jsval" where
  "js_get (JObj es) k = (case map_of es k of Some v \<Rightarrow> v | None \<Rightarrow> JUndefined)"
| "js_get v k = JUndefined"

definition toJsonSchema :: "Schema \<Rightarrow> thrown + jsval" where
  "toJsonSchema schema =
     (if sch_vendor schema \<in> {''arktype'', ''valibot'', ''zod'', ''effect''} then
        (case sch_convert schema of
           Inl e \<Rightarrow> Inl e
         | Inr jsonSchema \<Rightarrow>
             if \<not> truthy jsonSchema then Inl (ThrownError ''Unsupported schema validation library'')
             else if js_get jsonSchema ''type'' \<noteq> JStr ''object''
             then Inl (ThrownError ''Schema is not an object'')
             else Inr jsonSchema)
      else Inl (ThrownError ''Unsupported schema validation library''))"

section \<open>Requests\<close>

text \<open>
  The parameters of a request, by the fields the handlers read: \<open>name\<close> and \<open>arguments\<close>
  (tools/call, prompts/get), \<open>uri\<close> (resources/read), any other parameter object, or none.
\<close>

datatype params =
    NoParams
  | NameParams string jsval
  | UriParams string
  | OtherParams

record RPCRequest =
  rpc_method :: string
  rpc_params :: params
  rpc_id :: jsval

text \<open>
  The body of the HTTP request: not JSON, JSON that has no string \<open>method\<close>, or a request.
\<close>

datatype body = NotJson | NotRequest | Request RPCRequest

record RequestEvent =
  ev_pathname :: string
  ev_origin :: string
  ev_method :: string
  ev_session_header :: "string option"
  ev_body :: body

section \<open>Tools (tools.ts)\<close>

datatype content =
    TextContent string
  | ImageContent string string
  | AudioContent string string

record CallToolResult =
  ctr_content :: "content list"
  ctr_isError :: "bool option"
  ctr_structuredContent :: "jsval option"
  ctr_meta :: "meta option"

record ToolPayload =
  tp_input :: jsval
  tp_event :: RequestEvent
  tp_sessionId :: "string option"

text \<open>
  What a tool handler hands back: the error sentinel (\<open>error(message)\<close>), a binary result
  (\<open>blob({data, mimeType, _meta})\<close>), or any other value; the object that the payload's
  \<open>resource\<close> helper builds is one of the other values.
\<close>

datatype tool_return =
    RetToolError "string option"
  | RetBlobResult "string + binary" string "meta option"
  | RetOther jsval

record Tool =
  tool_schema :: "Schema option"
  tool_description :: string
  tool_output :: "Schema option"
  tool_handler :: "(ToolPayload \<Rightarrow> thrown + tool_return) option"
  tool_meta :: "meta option"
  tool_title :: "string option"
  tool_annotations :: "jsval option"
  tool_widget :: "Widget option"

definition ToolError_result :: "string option \<Rightarrow> CallToolResult" where
  "ToolError_result message =
     \<lparr>ctr_content = [TextContent (opt_str_or message ''An error occurred during tool execution'')],
      ctr_isError = Some True,
      ctr_structuredContent = None,
      ctr_meta = None\<rparr>"

definition BlobResult_result :: "string + binary \<Rightarrow> string \<Rightarrow> meta option \<Rightarrow> CallToolResult" where
  "BlobResult_result d mimeType m =
     \<lparr>ctr_content =
        [if startsWith mimeType ''audio/''
         then AudioContent mimeType (toDataUrl d mimeType)
         else ImageContent mimeType (toDataUrl d mimeType)],
      ctr_isError = None,
      ctr_structuredContent = None,
      ctr_meta = m\<rparr>"

text \<open>The message that the catch block of \<open>Tool['~call']\<close> gives to the error result.\<close>

fun catch_message :: "thrown \<Rightarrow> string" where
  "catch_message (ThrownMCPError e) = str_or (err_message e) ''Unknown error''"
| "catch_message (ThrownError m) = str_or m ''Unknown error''"
| "catch_message (ThrownValue v) = ''Unknown error''"
| "catch_message (ThrownToolError m) = ''Unknown error''"

text \<open>
  \<open>Tool['~call']\<close>: the handler runs inside \<open>try\<close>, and what it returned or threw is
  shaped into a result. \<open>safeStringify\<close> (utils/utils, not among the sources) is a
  parameter. A tool without a handler has the result \<open>undefined\<close>.
\<close>

definition Tool_shape ::
  "(jsval \<Rightarrow> string) \<Rightarrow> Tool \<Rightarrow> thrown + tool_return \<Rightarrow> CallToolResult" where
  "Tool_shape safeStringify tool handled =
     (case handled of
        Inr (RetToolError m) \<Rightarrow> ToolError_result m
      | Inr (RetBlobResult d mimeType m) \<Rightarrow> BlobResult_result d mimeType m
      | Inr (RetOther (JStr s)) \<Rightarrow>
          \<lparr>ctr_content = [TextContent s], ctr_isError = None,
           ctr_structuredContent = None, ctr_meta = None\<rparr>
      | Inr (RetOther v) \<Rightarrow>
          \<lparr>ctr_content = [TextContent (safeStringify v)], ctr_isError = None,
           ctr_structuredContent = (if tool_output tool = None then None else Some v),
           ctr_meta = None\<rparr>
      | Inl (ThrownToolError m) \<Rightarrow> ToolError_result m
      | Inl err \<Rightarrow> ToolError_result (Some (catch_message err)))"

definition Tool_call ::
  "(jsval \<Rightarrow> string) \<Rightarrow> Tool \<Rightarrow> jsval \<Rightarrow> RequestEvent \<Rightarrow> string option \<Rightarrow> CallToolResult" where
  "Tool_call safeStringify tool input event sessionId =
     Tool_shape safeStringify tool
       (case tool_handler tool of
          None \<Rightarrow> Inr (RetOther JUndefined)
        | Some h \<Rightarrow> h \<lparr>tp_input = input, tp_event = event, tp_sessionId = sessionId\<rparr>)"

definition Tool_validate :: "Tool \<Rightarrow> jsval \<Rightarrow> thrown + jsval" where
  "Tool_validate tool input =
     (case tool_schema tool of
        None \<Rightarrow> Inr JUndefined
      | Some schema \<Rightarrow> sch_validate schema input)"

record SpecTool =
  st_name :: string
  st_description :: string
  st_meta :: meta
  st_title :: "string option"
  st_annotations :: "jsval option"
  st_outputSchema :: "jsval option"
  st_inputSchema :: jsval

definition defineTool :: "string \<Rightarrow> Tool \<Rightarrow> thrown + SpecTool" where
  "defineTool name tool =
     (case (case tool_output tool of
              None \<Rightarrow> Inr None
            | Some output \<Rightarrow> map_sum id Some (toJsonSchema output)) of
        Inl e \<Rightarrow> Inl e
      | Inr outputSchema \<Rightarrow>
         (case (case tool_schema tool of
                  None \<Rightarrow> Inr (JObj [(''type'', JStr ''object'')])
                | Some schema \<Rightarrow> toJsonSchema schema) of
            Inl e \<Rightarrow> Inl e
          | Inr inputSchema \<Rightarrow>
              Inr \<lparr>st_name = name,
                   st_description = tool_description tool,
                   st_meta =
                     (case tool_meta tool of None \<Rightarrow> Map.empty | Some m \<Rightarrow> m) ++
                     (case tool_widget tool of None \<Rightarrow> Map.empty | Some w \<Rightarrow> toolMetadata w),
                   st_title = tool_title tool,
                   st_annotations = tool_annotations tool,
                   st_outputSchema = outputSchema,
                   st_inputSchema = inputSchema\<rparr>))"

text \<open>\<open>Array.prototype.map\<close> with a callback that may throw: the first exception ends it.\<close>

fun map_throwing :: "('a \<Rightarrow> thrown + 'b) \<Rightarrow> 'a list \<Rightarrow> thrown + 'b list" where
  "map_throwing f [] = Inr []"
| "map_throwing f (x # xs) =
     (case f x of
        Inl e \<Rightarrow> Inl e
      | Inr y \<Rightarrow> (case map_throwing f xs of Inl e \<Rightarrow> Inl e | Inr ys \<Rightarrow> Inr (y # ys)))"

definition defineTools :: "(string \<times> Tool) list \<Rightarrow> thrown + SpecTool list" where
  "defineTools tools = map_throwing (\<lambda>(key, tool). defineTool key tool) tools"

section \<open>Prompts (prompts.ts)\<close>

record PromptPayload =
  pp_input :: jsval
  pp_sessionId :: string

record PromptMessage =
  pm_description :: "string option"
  pm_role :: "string option"
  pm_text :: string

text \<open>A prompt handler returns a message, or a protocol error built with the \<open>error\<close> helper.\<close>

datatype prompt_return =
    RetPrompt PromptMessage
  | RetPromptError MCPError

record Prompt =
  prompt_schema :: "Schema option"
  prompt_description :: string
  prompt_handler :: "(PromptPayload \<Rightarrow> thrown + prompt_return) option"

text \<open>\<open>Prompt['~call']\<close>: \<open>None\<close> is the \<open>undefined\<close> of a prompt without a handler.\<close>

definition Prompt_call :: "Prompt \<Rightarrow> jsval \<Rightarrow> string \<Rightarrow> thrown + prompt_return option" where
  "Prompt_call p input sessionId =
     (case prompt_handler p of
        None \<Rightarrow> Inr None
      | Some h \<Rightarrow> map_sum id Some (h \<lparr>pp_input = input, pp_sessionId = sessionId\<rparr>))"

definition Prompt_validate :: "Prompt \<Rightarrow> jsval \<Rightarrow> thrown + jsval" where
  "Prompt_validate p input =
     (case prompt_schema p of
        None \<Rightarrow> Inr JUndefined
      | Some schema \<Rightarrow> sch_validate schema input)"

record PromptArgument =
  pa_name :: string
  pa_description :: jsval
  pa_required :: bool

record SpecPrompt =
  sp_name :: string
  sp_description :: string
  sp_arguments :: "PromptArgument list"

text \<open>
  One entry of \<open>Object.entries(properties ?? {})\<close> in \<open>definePrompt\<close>; \<open>properties\<close> is an
  object when the schema has it, and \<open>required\<close> an array, as in JSON Schema.
\<close>

definition prompt_argument :: "jsval \<Rightarrow> string \<times> jsval \<Rightarrow> thrown + PromptArgument" where
  "prompt_argument required entry =
     (case entry of (key, v) \<Rightarrow>
        if v = JUndefined \<or> v = JNull then Inl (ThrownError ''TypeError'')
        else
          Inr \<lparr>pa_name = key,
               pa_description =
                 (if js_get v ''description'' = JUndefined \<or> js_get v ''description'' = JNull
                  then JStr [] else js_get v ''description''),
               pa_required = (case required of JArr rs \<Rightarrow> JStr key \<in> set rs | _ \<Rightarrow> False)\<rparr>)"

definition definePrompt :: "string \<Rightarrow> Prompt \<Rightarrow> thrown + SpecPrompt" where
  "definePrompt name p =
     (case (case prompt_schema p of
              None \<Rightarrow>
                Inr (JObj [(''type'', JStr ''object''), (''properties'', JObj []),
                           (''required'', JArr [])])
            | Some schema \<Rightarrow> toJsonSchema schema) of
        Inl e \<Rightarrow> Inl e
      | Inr jsonSchema \<Rightarrow>
          (case map_throwing (prompt_argument (js_get jsonSchema ''required''))
                  (case js_get jsonSchema ''properties'' of JObj es \<Rightarrow> es | _ \<Rightarrow> []) of
             Inl e \<Rightarrow> Inl e
           | Inr args \<Rightarrow>
               Inr \<lparr>sp_name = name, sp_description = prompt_description p,
                    sp_arguments = args\<rparr>))"

definition definePrompts :: "(string \<times> Prompt) list \<Rightarrow> thrown + SpecPrompt list" where
  "definePrompts prompts = map_throwing (\<lambda>(key, p). definePrompt key p) prompts"

section \<open>The handler table (handler.ts)\<close>

record MCPServer =
  srv_domain :: "string option"
  srv_widgets :: "(string \<times> Widget) list option"
  srv_tools :: "(string \<times> Tool) list option"
  srv_prompts :: "(string \<times> Prompt) list option"
  srv_resources :: "(string \<times> Resource) list option"
  srv_name :: string
  srv_version :: string

record MCPHandler =
  h_server :: MCPServer
  h_event :: RequestEvent
  h_domain :: string
  h_sessionId :: string
  hasTools :: bool
  hasResources :: bool
  hasPrompts :: bool
  hasWidgets :: bool

text \<open>\<open>!!registry && Object.keys(registry).length > 0\<close>\<close>

definition non_empty :: "(string \<times> 'a) list option \<Rightarrow> bool" where
  "non_empty registry =
     (case registry of None \<Rightarrow> False | Some r \<Rightarrow> length (Object_keys r) > 0)"

text \<open>\<open>registry || {}\<close>\<close>

definition or_empty :: "(string \<times> 'a) list option \<Rightarrow> (string \<times> 'a) list" where
  "or_empty registry = (case registry of None \<Rightarrow> [] | Some r \<Rightarrow> r)"

definition MCPHandler_new :: "MCPServer \<Rightarrow> RequestEvent \<Rightarrow> string \<Rightarrow> string \<Rightarrow> MCPHandler" where
  "MCPHandler_new server event domain sessionId =
     \<lparr>h_server = server, h_event = event, h_domain = domain, h_sessionId = sessionId,
      hasTools = non_empty (srv_tools server),
      hasResources = non_empty (srv_resources server),
      hasPrompts = non_empty (srv_prompts server),
      hasWidgets = non_empty (srv_widgets server)\<rparr>"

record Capabilities =
  cap_tools :: bool
  cap_resources :: bool
  cap_prompts :: bool

record GetPromptResult =
  gp_description :: "string option"
  gp_role :: string
  gp_text :: string

datatype rpc_result =
    InitializeResult string string string Capabilities
  | EmptyResult
  | GetPrompt GetPromptResult
  | ListPrompts "SpecPrompt list"
  | ListResources "SpecResource list"
  | ListResourceTemplates "ResourceTemplate list"
  | ReadResource ReadResourceResult
  | CallTool CallToolResult
  | ListTools "SpecTool list"
  | BuiltinResult jsval

text \<open>
  A handler either lets an exception escape (\<open>Inl\<close>) or returns a protocol error or a result.
\<close>

type_synonym handled = "thrown + (MCPError + rpc_result)"

text \<open>
  Reading \<open>payload.name\<close>, \<open>payload.arguments\<close> and \<open>payload.uri\<close>. Without parameters the
  read is a \<open>TypeError\<close>; a missing \<open>name\<close> is \<open>undefined\<close>, which as a property key is
  the string \<open>undefined\<close>; a missing \<open>uri\<close> is \<open>undefined\<close>, on which \<open>startsWith\<close> is a
  \<open>TypeError\<close>.
\<close>

fun payload_name :: "params \<Rightarrow> thrown + string" where
  "payload_name NoParams = Inl (ThrownError ''TypeError'')"
| "payload_name (NameParams name arguments) = Inr name"
| "payload_name (UriParams uri) = Inr ''undefined''"
| "payload_name OtherParams = Inr ''undefined''"

fun payload_arguments :: "params \<Rightarrow> jsval" where
  "payload_arguments (NameParams name arguments) = arguments"
| "payload_arguments p = JUndefined"

fun payload_uri :: "params \<Rightarrow> thrown + string" where
  "payload_uri (UriParams uri) = Inr uri"
| "payload_uri p = Inl (ThrownError ''TypeError'')"

definition initialize :: "MCPHandler \<Rightarrow> handled" where
  "initialize this =
     Inr (Inr (InitializeResult (srv_name (h_server this)) (srv_version (h_server this))
       ''2025-06-18''
       \<lparr>cap_tools = hasTools this,
        cap_resources = (hasResources this \<or> hasWidgets this),
        cap_prompts = hasPrompts this\<rparr>))"

definition prompts_get :: "MCPHandler \<Rightarrow> params \<Rightarrow> handled" where
  "prompts_get this payload =
     (if \<not> hasPrompts this then Inr (Inl (mcpError METHOD_NOT_FOUND))
      else case payload_name payload of
        Inl e \<Rightarrow> Inl e
      | Inr name \<Rightarrow>
         (case get_prop (or_empty (srv_prompts (h_server this))) name of
            Absent \<Rightarrow> Inr (Inl (mcpError METHOD_NOT_FOUND))
          | Inherited \<Rightarrow> Inr (Inl (mcpError INTERNAL_ERROR))
          | Own prompt \<Rightarrow>
             (case Prompt_validate prompt (payload_arguments payload) of
                Inl (ThrownMCPError err) \<Rightarrow> Inr (Inl err)
              | Inl err \<Rightarrow> Inr (Inl (mcpError INTERNAL_ERROR))
              | Inr validatedPayload \<Rightarrow>
                 (case Prompt_call prompt validatedPayload (h_sessionId this) of
                    Inl e \<Rightarrow> Inl e
                  | Inr None \<Rightarrow> Inl (ThrownError ''TypeError'')
                  | Inr (Some (RetPromptError err)) \<Rightarrow> Inr (Inl err)
                  | Inr (Some (RetPrompt result)) \<Rightarrow>
                      Inr (Inr (GetPrompt
                        \<lparr>gp_description = pm_description result,
                         gp_role = opt_str_or (pm_role result) ''assistant'',
                         gp_text = pm_text result\<rparr>))))))"

definition prompts_list :: "MCPHandler \<Rightarrow> handled" where
  "prompts_list this =
     (if \<not> hasPrompts this then Inr (Inl (mcpError METHOD_NOT_FOUND))
      else case definePrompts (or_empty (srv_prompts (h_server this))) of
        Inl e \<Rightarrow> Inl e
      | Inr ps \<Rightarrow> Inr (Inr (ListPrompts ps)))"

definition resources_list :: "MCPHandler \<Rightarrow> handled" where
  "resources_list this =
     (if \<not> hasResources this \<and> \<not> hasWidgets this then Inr (Inl (mcpError METHOD_NOT_FOUND))
      else
        Inr (Inr (ListResources
          ((if hasResources this
            then defineResources (or_empty (srv_resources (h_server this))) else []) @
           (if hasWidgets this
            then defineWidgets (or_empty (srv_widgets (h_server this))) (h_domain this)
            else [])))))"

definition resources_templates_list :: "MCPHandler \<Rightarrow> handled" where
  "resources_templates_list this =
     (if \<not> hasResources this then Inr (Inl (mcpError METHOD_NOT_FOUND))
      else
        Inr (Inr (ListResourceTemplates
          (defineResourceTemplates (or_empty (srv_resources (h_server this)))))))"

text \<open>
  The token that \<open>resources.read\<close> compares with widget identifiers,
  \<open>payload.uri.split('//')[1].split('.')[0]\<close>; \<open>None\<close> when the first split has no
  second piece, on which the second split is a \<open>TypeError\<close>.
\<close>

definition widget_token :: "string \<Rightarrow> string option" where
  "widget_token uri =
     (case at_index (split uri ''//'') 1 of
        None \<Rightarrow> None
      | Some rest \<Rightarrow> at_index (split rest ''.'') 0)"

text \<open>
  The resource that a read of a uri outside the \<open>widget://\<close> scheme is dispatched to:
  \<open>resource || templatedResource\<close>, the first resource whose uri is the requested one or
  else the first resource whose uri has the form of a template.
\<close>

definition read_target :: "Resource list \<Rightarrow> string \<Rightarrow> Resource option" where
  "read_target resources uri =
     (case find (\<lambda>resource. res_uri resource = Some uri) resources of
        Some resource \<Rightarrow> Some resource
      | None \<Rightarrow> find (\<lambda>resource. isTemplate (opt_str_or (res_uri resource) [])) resources)"

definition resources_read :: "MCPHandler \<Rightarrow> params \<Rightarrow> handled" where
  "resources_read this payload =
     (if \<not> hasResources this \<and> \<not> hasWidgets this then Inr (Inl (mcpError METHOD_NOT_FOUND))
      else case payload_uri payload of
        Inl e \<Rightarrow> Inl e
      | Inr uri \<Rightarrow>
          if startsWith uri ''widget://'' then
            (case widget_token uri of
               None \<Rightarrow>
                 if Object_values (or_empty (srv_widgets (h_server this))) = []
                 then Inr (Inl (mcpError RESOURCE_NOT_FOUND))
                 else Inl (ThrownError ''TypeError'')
             | Some token \<Rightarrow>
                (case find (\<lambda>widget. includes_str (widget_id widget) token)
                        (Object_values (or_empty (srv_widgets (h_server this)))) of
                   None \<Rightarrow> Inr (Inl (mcpError RESOURCE_NOT_FOUND))
                 | Some widget \<Rightarrow> Inr (Inr (ReadResource (Widget_result widget (h_domain this))))))
          else
            (case read_target (Object_values (or_empty (srv_resources (h_server this)))) uri of
               None \<Rightarrow> Inr (Inl (mcpError RESOURCE_NOT_FOUND))
             | Some target \<Rightarrow>
                 map_sum id (map_sum id ReadResource)
                   (Resource_call target uri (h_sessionId this))))"

definition tools_call :: "(jsval \<Rightarrow> string) \<Rightarrow> MCPHandler \<Rightarrow> params \<Rightarrow> handled" where
  "tools_call safeStringify this payload =
     (if \<not> hasTools this then Inr (Inl (mcpError METHOD_NOT_FOUND))
      else case payload_name payload of
        Inl e \<Rightarrow> Inl e
      | Inr name \<Rightarrow>
         (case get_prop (or_empty (srv_tools (h_server this))) name of
            Absent \<Rightarrow> Inr (Inl (mcpError METHOD_NOT_FOUND))
          | Inherited \<Rightarrow> Inr (Inl (mcpError INVALID_PARAMS))
          | Own tool \<Rightarrow>
             (case Tool_validate tool (payload_arguments payload) of
                Inl (ThrownMCPError err) \<Rightarrow> Inr (Inl err)
              | Inl err \<Rightarrow> Inr (Inl (mcpError INVALID_PARAMS))
              | Inr validatedPayload \<Rightarrow>
                 (let result = Tool_call safeStringify tool validatedPayload (h_event this)
                                 (Some (h_sessionId this))
                  in case tool_widget tool of
                       Some toolWidget \<Rightarrow>
                         Inr (Inr (CallTool (result\<lparr>ctr_meta :=
                           Some ((case ctr_meta result of None \<Rightarrow> Map.empty | Some m \<Rightarrow> m) ++
                                 toolMetadata toolWidget)\<rparr>)))
                     | None \<Rightarrow> Inr (Inr (CallTool result))))))"

definition tools_list :: "MCPHandler \<Rightarrow> handled" where
  "tools_list this =
     (if \<not> hasTools this then Inr (Inl (mcpError METHOD_NOT_FOUND))
      else case defineTools (or_empty (srv_tools (h_server this))) of
        Inl e \<Rightarrow> Inl e
      | Inr ts \<Rightarrow> Inr (Inr (ListTools ts)))"

text \<open>The functions of the table returned by \<open>mpcHandler\<close>, and the table itself.\<close>

datatype handler_name =
    H_initialize
  | H_notifications_initialized
  | H_prompts_get
  | H_prompts_list
  | H_resources_list
  | H_resources_templates_list
  | H_resources_read
  | H_tools_call
  | H_tools_list
  | H_ping

datatype handler_node =
    HObject "(string \<times> handler_node) list"
  | HFunction handler_name

definition mpcHandler :: handler_node where
  "mpcHandler =
     HObject
       [(''initialize'', HFunction H_initialize),
        (''notifications'', HObject [(''initialized'', HFunction H_notifications_initialized)]),
        (''prompts'', HObject
           [(''get'', HFunction H_prompts_get), (''list'', HFunction H_prompts_list)]),
        (''resources'', HObject
           [(''list'', HFunction H_resources_list),
            (''templates'', HObject [(''list'', HFunction H_resources_templates_list)]),
            (''read'', HFunction H_resources_read)]),
        (''tools'', HObject
           [(''call'', HFunction H_tools_call), (''list'', HFunction H_tools_list)]),
        (''ping'', HFunction H_ping)]"

fun invoke :: "(jsval \<Rightarrow> string) \<Rightarrow> MCPHandler \<Rightarrow> handler_name \<Rightarrow> params \<Rightarrow> handled" where
  "invoke safeStringify this H_initialize payload = initialize this"
| "invoke safeStringify this H_notifications_initialized payload = Inr (Inr EmptyResult)"
| "invoke safeStringify this H_prompts_get payload = prompts_get this payload"
| "invoke safeStringify this H_prompts_list payload = prompts_list this"
| "invoke safeStringify this H_resources_list payload = resources_list this"
| "invoke safeStringify this H_resources_templates_list payload = resources_templates_list this"
| "invoke safeStringify this H_resources_read payload = resources_read this payload"
| "invoke safeStringify this H_tools_call payload = tools_call safeStringify this payload"
| "invoke safeStringify this H_tools_list payload = tools_list this"
| "invoke safeStringify this H_ping payload = Inr (Inr EmptyResult)"

section \<open>The transport (index.ts, errors.ts, utils/handleGetDelete.ts)\<close>

datatype response_body =
    ResultBody jsval rpc_result
  | ErrorBody int string "jsval option"
  | OtherBody string

record Response =
  status :: nat
  headers :: "(string \<times> string) list"
  body :: response_body

definition header :: "Response \<Rightarrow> string \<Rightarrow> string option" where
  "header r name = map_of (headers r) name"

text \<open>\<open>errorResponse\<close>, for an error kind and for an error object; the \<open>id\<close> is \<open>null\<close>.\<close>

definition errorResponse :: "MCPErrorCode + MCPError \<Rightarrow> string \<Rightarrow> Response" where
  "errorResponse error sessionId =
     (let ERROR = (case error of Inl code \<Rightarrow> mcpError code | Inr e \<Rightarrow> e)
      in \<lparr>status = 400,
          headers = [(''Content-Type'', ''application/json''), (''Mcp-Session-Id'', sessionId)],
          body = ErrorBody (err_code ERROR) (err_message ERROR) (err_data ERROR)\<rparr>)"

definition handleGetDeleteMethodNotAllowed :: Response where
  "handleGetDeleteMethodNotAllowed =
     \<lparr>status = 405,
      headers = [(''Content-Type'', ''application/json'')],
      body = ErrorBody (- 32000) ''Method not allowed.'' None\<rparr>"

text \<open>
  The \<open>in\<close> operator on a node of the handler table. An object has its own keys and those
  of \<open>Object.prototype\<close>; a function has \<open>length\<close> and \<open>name\<close> and the keys of
  \<open>Function.prototype\<close> and \<open>Object.prototype\<close>.
\<close>

definition function_keys :: "string list" where
  "function_keys =
     [''length'', ''name'', ''apply'', ''bind'', ''call'', ''arguments'', ''caller'']
     @ object_prototype_keys"

fun key_in :: "handler_node \<Rightarrow> string \<Rightarrow> handler_node js_prop" where
  "key_in (HObject entries) key = get_prop entries key"
| "key_in (HFunction h) key = (if key \<in> set function_keys then Inherited else Absent)"

text \<open>
  An inherited property leads out of the handler table to a built-in value of the
  JavaScript runtime (\<open>Object.prototype.toString\<close>, the \<open>length\<close> of a function, ...).
  What such a value is belongs to the runtime, not to this repository, so it is given by
  what the hook can observe of it: whether it is truthy; for a key, whether \<open>key in value\<close>
  holds, or \<open>None\<close> when the value is a primitive, on which \<open>in\<close> is a \<open>TypeError\<close>; and
  what calling it with the parameters and the event does, an exception or a value (as
  \<open>JSON.stringify\<close> renders it; the runtime has no built-in that makes a protocol error).
\<close>

record builtin =
  bi_truthy :: bool
  bi_has :: "string \<Rightarrow> bool option"
  bi_call :: "params \<Rightarrow> RequestEvent \<Rightarrow> thrown + jsval"

text \<open>What \<open>handlerMethod\<close> is bound to: a node of the table or a built-in value.\<close>

datatype resolved =
    Handler handler_node
  | Builtin builtin

text \<open>
  The loop over \<open>method.split('/')\<close>: a key that the current value has replaces the value by
  the property's value, any other key is skipped. The runtime is the parameter \<open>read\<close>: the
  built-in value found from a node of the table by following the given keys, the first of
  them inherited by the node, or \<open>None\<close> when reading the last of them throws. The result
  \<open>None\<close> is an exception in the loop, which is outside the \<open>try\<close> block.
\<close>

fun walk_builtin ::
  "(string list \<Rightarrow> builtin option) \<Rightarrow> string list \<Rightarrow> builtin \<Rightarrow> string list \<Rightarrow> builtin option"
where
  "walk_builtin read path handlerMethod [] = Some handlerMethod"
| "walk_builtin read path handlerMethod (key # rest) =
     (case bi_has handlerMethod key of
        None \<Rightarrow> None
      | Some present \<Rightarrow>
          if present then
            (case read (path @ [key]) of
               None \<Rightarrow> None
             | Some child \<Rightarrow> walk_builtin read (path @ [key]) child rest)
          else walk_builtin read path handlerMethod rest)"

fun walk ::
  "(handler_node \<Rightarrow> string list \<Rightarrow> builtin option) \<Rightarrow> handler_node \<Rightarrow> string list \<Rightarrow>
   resolved option"
where
  "walk read handlerMethod [] = Some (Handler handlerMethod)"
| "walk read handlerMethod (key # rest) =
     (case key_in handlerMethod key of
        Own child \<Rightarrow> walk read child rest
      | Absent \<Rightarrow> walk read handlerMethod rest
      | Inherited \<Rightarrow>
          (case read handlerMethod [key] of
             None \<Rightarrow> None
           | Some child \<Rightarrow>
               map_option Builtin (walk_builtin (read handlerMethod) [key] child rest)))"

text \<open>Objects and functions are truthy.\<close>

fun node_truthy :: "handler_node \<Rightarrow> bool" where
  "node_truthy (HObject entries) = True"
| "node_truthy (HFunction h) = True"

text \<open>Calling a node: an object is not callable, which is a \<open>TypeError\<close>.\<close>

fun call_node :: "(jsval \<Rightarrow> string) \<Rightarrow> MCPHandler \<Rightarrow> handler_node \<Rightarrow> params \<Rightarrow> handled" where
  "call_node safeStringify this (HObject entries) payload = Inl (ThrownError ''TypeError'')"
| "call_node safeStringify this (HFunction h) payload = invoke safeStringify this h payload"

text \<open>
  What the server does not define itself: \<open>safeStringify\<close>, the response of \<open>handleCors\<close>,
  the identifier that \<open>crypto.randomUUID()\<close> returns for this request, and the built-in
  values of the runtime (see \<^const>\<open>walk\<close>).
\<close>

record Externals =
  ext_safeStringify :: "jsval \<Rightarrow> string"
  ext_handleCors :: Response
  ext_randomUUID :: string
  ext_builtin :: "handler_node \<Rightarrow> string list \<Rightarrow> builtin option"

text \<open>
  The hook's outcome: a response; the request is passed on to the application
  (\<open>resolve(event)\<close>); or an exception escapes the hook.
\<close>

datatype outcome =
    Responds Response
  | Resolves
  | Escapes

definition session_of :: "Externals \<Rightarrow> RequestEvent \<Rightarrow> string" where
  "session_of ext event = opt_str_or (ev_session_header event) (ext_randomUUID ext)"

text \<open>The \<open>try\<close> block of the hook: what becomes of the handler's outcome.\<close>

definition respond :: "string \<Rightarrow> jsval \<Rightarrow> handled \<Rightarrow> Response" where
  "respond sessionId id' outcome =
     (case outcome of
        Inl error \<Rightarrow> errorResponse (Inl INTERNAL_ERROR) sessionId
      | Inr (Inl result) \<Rightarrow> errorResponse (Inr result) sessionId
      | Inr (Inr result) \<Rightarrow>
          \<lparr>status = 200,
           headers = [(''Content-Type'', ''application/json''), (''Mcp-Session-Id'', sessionId)],
           body = ResultBody id' result\<rparr>)"

definition handleMCP :: "Externals \<Rightarrow> MCPServer \<Rightarrow> RequestEvent \<Rightarrow> outcome" where
  "handleMCP ext server event =
     (if startsWith (ev_pathname event) ''/mcp'' then
        if ev_method event = ''OPTIONS'' then Responds (ext_handleCors ext)
        else if ev_method event = ''GET'' \<or> ev_method event = ''DELETE''
        then Responds handleGetDeleteMethodNotAllowed
        else
          (let sessionId = session_of ext event
           in case ev_body event of
                NotJson \<Rightarrow> Responds (errorResponse (Inl PARSE_ERROR) sessionId)
              | NotRequest \<Rightarrow> Escapes
              | Request rpc \<Rightarrow>
                 (let handler = MCPHandler_new server event
                                  (opt_str_or (srv_domain server) (ev_origin event)) sessionId
                  in case walk (ext_builtin ext) mpcHandler (split (rpc_method rpc) ''/'') of
                       None \<Rightarrow> Escapes
                     | Some (Handler handlerMethod) \<Rightarrow>
                         if \<not> node_truthy handlerMethod
                         then Responds (errorResponse (Inl METHOD_NOT_FOUND) sessionId)
                         else Responds (respond sessionId (rpc_id rpc)
                                (call_node (ext_safeStringify ext) handler handlerMethod
                                   (rpc_params rpc)))
                     | Some (Builtin handlerMethod) \<Rightarrow>
                         if \<not> bi_truthy handlerMethod
                         then Responds (errorResponse (Inl METHOD_NOT_FOUND) sessionId)
                         else Responds (respond sessionId (rpc_id rpc)
                                (map_sum id (\<lambda>result. Inr (BuiltinResult result))
                                   (bi_call handlerMethod (rpc_params rpc) event)))))
      else Resolves)"

section \<open>Example configurations\<close>

text \<open>
  Servers, capabilities and requests on which the properties below are evaluated.
\<close>

text \<open>
  An excerpt of a runtime, with the two built-in values that the examples reach:
  \<open>Object.prototype.toString\<close>, inherited by every object of the table, a function that
  called without a receiver returns \<open>[object Undefined]\<close>; and the \<open>length\<close> of
  \<open>initialize\<close>, which takes no parameter: the number 0, falsy, a primitive and not
  callable. Every other read is outside the excerpt and given as throwing.
\<close>

definition ex_builtin :: "handler_node \<Rightarrow> string list \<Rightarrow> builtin option" where
  "ex_builtin origin path =
     (case origin of
        HObject entries \<Rightarrow>
          if path = [''toString'']
          then Some \<lparr>bi_truthy = True,
                     bi_has = (\<lambda>key. Some (key \<in> set function_keys)),
                     bi_call = (\<lambda>ps event. Inr (JStr ''[object Undefined]''))\<rparr>
          else None
      | HFunction h \<Rightarrow>
          if h = H_initialize \<and> path = [''length'']
          then Some \<lparr>bi_truthy = False,
                     bi_has = (\<lambda>key. None),
                     bi_call = (\<lambda>ps event. Inl (ThrownError ''TypeError''))\<rparr>
          else None)"

definition ex_ext :: Externals where
  "ex_ext =
     \<lparr>ext_safeStringify = (\<lambda>v. ''[value]''),
      ext_handleCors = \<lparr>status = 204, headers = [], body = OtherBody []\<rparr>,
      ext_randomUUID = ''generated-uuid'',
      ext_builtin = ex_builtin\<rparr>"

definition ex_empty_server :: MCPServer where
  "ex_empty_server =
     \<lparr>srv_domain = None, srv_widgets = None, srv_tools = Some [], srv_prompts = Some [],
      srv_resources = Some [], srv_name = ''test'', srv_version = ''1.0.0''\<rparr>"

definition ex_post :: "string option \<Rightarrow> string \<Rightarrow> params \<Rightarrow> RequestEvent" where
  "ex_post session method ps =
     \<lparr>ev_pathname = ''/mcp'', ev_origin = ''http://localhost'', ev_method = ''POST'',
      ev_session_header = session,
      ev_body = Request \<lparr>rpc_method = method, rpc_params = ps, rpc_id = JNum 1\<rparr>\<rparr>"





definition ex_echo_tool :: Tool where
  "ex_echo_tool =
     \<lparr>tool_schema = None, tool_description = ''Reports whether it was given input'',
      tool_output = None,
      tool_handler = Some (\<lambda>p. Inr (RetOther
        (JStr (if tp_input p = JUndefined then ''no input'' else ''some input'')))),
      tool_meta = None, tool_title = None, tool_annotations = None, tool_widget = None\<rparr>"

definition ex_failing_tool :: "thrown \<Rightarrow> Tool" where
  "ex_failing_tool err =
     \<lparr>tool_schema = None, tool_description = ''Always fails'',
      tool_output = None, tool_handler = Some (\<lambda>p. Inl err),
      tool_meta = None, tool_title = None, tool_annotations = None, tool_widget = None\<rparr>"

definition ex_tool_server :: MCPServer where
  "ex_tool_server =
     \<lparr>srv_domain = None, srv_widgets = None,
      srv_tools = Some [(''echo'', ex_echo_tool),
                        (''disk'', ex_failing_tool (ThrownError ''disk full'')),
                        (''boom'', ex_failing_tool (ThrownError []))],
      srv_prompts = None, srv_resources = None, srv_name = ''test'', srv_version = ''1.0.0''\<rparr>"

definition ex_handler :: "MCPServer \<Rightarrow> MCPHandler" where
  "ex_handler server =
     MCPHandler_new server (ex_post (Some ''s1'') ''tools/call'' NoParams)
       ''http://localhost'' ''s1''"

definition ex_greeting :: Widget where
  "ex_greeting =
     \<lparr>widget_id = ''greeting'',
      widget_options = \<lparr>opt_name = ''greeting'', opt_invoking = ''Greeting'',
        opt_invoked = ''Greeted'', opt_description = ''Says hello'',
        opt_prefersBorder = False\<rparr>\<rparr>"

definition ex_widget_tool :: Tool where
  "ex_widget_tool =
     \<lparr>tool_schema = None, tool_description = ''Greets'',
      tool_output = None, tool_handler = Some (\<lambda>p. Inl (ThrownError ''no one to greet'')),
      tool_meta = Some (map_of [(''openai/outputTemplate'', JStr ''mine''),
                                (''version'', JStr ''1.0'')]),
      tool_title = None, tool_annotations = None, tool_widget = Some ex_greeting\<rparr>"

definition ex_widget_server :: MCPServer where
  "ex_widget_server =
     \<lparr>srv_domain = None, srv_widgets = Some [(''greeting'', ex_greeting)],
      srv_tools = Some [(''echo'', ex_echo_tool), (''greet'', ex_widget_tool)],
      srv_prompts = None, srv_resources = None, srv_name = ''test'', srv_version = ''1.0.0''\<rparr>"

definition ex_resource ::
  "string \<Rightarrow> string option \<Rightarrow> resource_return \<Rightarrow> Resource" where
  "ex_resource uri type returned =
     \<lparr>res_name = ''A test resource'', res_type = type, res_uri = Some uri,
      res_description = None, res_handler = Some (\<lambda>p. Inr returned), res_meta = None\<rparr>"

definition ex_resources :: "(string \<times> Resource) list" where
  "ex_resources =
     [(''notes'', ex_resource ''file:///notes'' (Some ''text/plain'') (RetValue (JStr ''content''))),
      (''logo'', ex_resource ''file:///logo'' None (RetBinary (Uint8Array [0x48, 0x69]))),
      (''count'', ex_resource ''file:///count'' (Some ''text/plain'') (RetValue (JNum 42))),
      (''user'', ex_resource ''users://{id}/profile'' (Some ''text/plain'')
         (RetValue (JStr ''profile'')))]"

definition ex_resource_server :: MCPServer where
  "ex_resource_server =
     \<lparr>srv_domain = None, srv_widgets = None, srv_tools = None, srv_prompts = None,
      srv_resources = Some ex_resources, srv_name = ''test'', srv_version = ''1.0.0''\<rparr>"

definition ex_plain_server :: MCPServer where
  "ex_plain_server = ex_resource_server\<lparr>srv_resources := Some (take 3 ex_resources)\<rparr>"

definition ex_greeting2 :: Widget where
  "ex_greeting2 =
     \<lparr>widget_id = ''greeting2'',
      widget_options = \<lparr>opt_name = ''greeting2'', opt_invoking = ''Greeting again'',
        opt_invoked = ''Greeted again'', opt_description = [],
        opt_prefersBorder = True\<rparr>\<rparr>"

definition ex_two_widgets_server :: MCPServer where
  "ex_two_widgets_server =
     \<lparr>srv_domain = None,
      srv_widgets = Some [(''greeting2'', ex_greeting2), (''greeting'', ex_greeting)],
      srv_tools = None, srv_prompts = None, srv_resources = None,
      srv_name = ''test'', srv_version = ''1.0.0''\<rparr>"

definition ex_get :: RequestEvent where
  "ex_get =
     \<lparr>ev_pathname = ''/mcp'', ev_origin = ''http://localhost'', ev_method = ''GET'',
      ev_session_header = Some ''s1'', ev_body = NotJson\<rparr>"

definition ex_delete :: RequestEvent where
  "ex_delete = ex_get\<lparr>ev_method := ''DELETE''\<rparr>"

section \<open>Method resolution\<close>

lemmas walk_defs = split_def mpcHandler_def get_prop_def object_prototype_keys_def

lemma walk_foo_bar: "walk read mpcHandler (split ''foo/bar'' ''/'') = Some (Handler mpcHandler)"
  by (simp add: walk_defs)

lemma walk_tools: "walk read mpcHandler (split ''tools'' ''/'') =
  Some (Handler
    (HObject [(''call'', HFunction H_tools_call), (''list'', HFunction H_tools_list)]))"
  by (simp add: walk_defs)

lemma walk_methods:
  "walk read mpcHandler (split ''tools/list'' ''/'') = Some (Handler (HFunction H_tools_list))"
  "walk read mpcHandler (split ''tools/call'' ''/'') = Some (Handler (HFunction H_tools_call))"
  "walk read mpcHandler (split ''prompts/list'' ''/'') = Some (Handler (HFunction H_prompts_list))"
  "walk read mpcHandler (split ''prompts/get'' ''/'') = Some (Handler (HFunction H_prompts_get))"
  "walk read mpcHandler (split ''resources/list'' ''/'') = Some (Handler (HFunction H_resources_list))"
  "walk read mpcHandler (split ''resources/read'' ''/'') = Some (Handler (HFunction H_resources_read))"
  "walk read mpcHandler (split ''resources/templates/list'' ''/'') =
     Some (Handler (HFunction H_resources_templates_list))"
  by (simp_all add: walk_defs)

text \<open>
  A request that is neither a preflight nor a GET or DELETE, with a body that is a request
  whose method path ends at a node of the table: the response is made from calling that
  node.
\<close>

lemma handleMCP_request:
  assumes "startsWith (ev_pathname event) ''/mcp''"
    and "ev_method event \<noteq> ''OPTIONS''" and "ev_method event \<noteq> ''GET''"
    and "ev_method event \<noteq> ''DELETE''"
    and "ev_body event = Request rpc"
    and "walk (ext_builtin ext) mpcHandler (split (rpc_method rpc) ''/'') = Some (Handler node)"
  shows "handleMCP ext server event =
    Responds (respond (session_of ext event) (rpc_id rpc)
      (call_node (ext_safeStringify ext)
         (MCPHandler_new server event (opt_str_or (srv_domain server) (ev_origin event))
            (session_of ext event))
         node (rpc_params rpc)))"
  using assms by (cases node) (simp_all add: handleMCP_def Let_def)

text \<open>
  C1. The claim: a method path that does not resolve to a callable handler is answered with
  METHOD_NOT_FOUND. The loop of the hook skips a segment that the current node does not
  have, so for \<open>foo/bar\<close> it ends at the whole table and for \<open>tools\<close> at the table of the
  tool handlers. Both are objects, hence truthy, so the METHOD_NOT_FOUND test does not fire;
  calling them fails inside the \<open>try\<close> block, and the answer is INTERNAL_ERROR, whatever
  the server, the parameters and the request id are.
\<close>

theorem unresolved_method_internal_error:
  "handleMCP ext server
     \<lparr>ev_pathname = ''/mcp'', ev_origin = origin, ev_method = ''POST'',
      ev_session_header = Some ''s1'',
      ev_body = Request \<lparr>rpc_method = ''foo/bar'', rpc_params = ps, rpc_id = i\<rparr>\<rparr>
   = Responds \<lparr>status = 400,
        headers = [(''Content-Type'', ''application/json''), (''Mcp-Session-Id'', ''s1'')],
        body = ErrorBody (mcpErrors INTERNAL_ERROR) ''Internal error'' None\<rparr>
   \<and> handleMCP ext server
     \<lparr>ev_pathname = ''/mcp'', ev_origin = origin, ev_method = ''POST'',
      ev_session_header = Some ''s1'',
      ev_body = Request \<lparr>rpc_method = ''tools'', rpc_params = ps, rpc_id = i\<rparr>\<rparr>
   = Responds \<lparr>status = 400,
        headers = [(''Content-Type'', ''application/json''), (''Mcp-Session-Id'', ''s1'')],
        body = ErrorBody (mcpErrors INTERNAL_ERROR) ''Internal error'' None\<rparr>
   \<and> mcpErrors INTERNAL_ERROR \<noteq> mcpErrors METHOD_NOT_FOUND"
proof -
  let ?ev = "\<lambda>m. \<lparr>ev_pathname = ''/mcp'', ev_origin = origin, ev_method = ''POST'',
      ev_session_header = Some ''s1'',
      ev_body = Request \<lparr>rpc_method = m, rpc_params = ps, rpc_id = i\<rparr>\<rparr>"
  have sid: "session_of ext (?ev m) = ''s1''" for m
    by (simp add: session_of_def opt_str_or_def str_or_def)
  have a: "handleMCP ext server (?ev ''foo/bar'') =
      Responds (errorResponse (Inl INTERNAL_ERROR) ''s1'')"
    by (subst handleMCP_request [where node = mpcHandler
          and rpc = "\<lparr>rpc_method = ''foo/bar'', rpc_params = ps, rpc_id = i\<rparr>"])
       (simp_all add: startsWith_def walk_foo_bar sid respond_def, simp add: mpcHandler_def)
  have b: "handleMCP ext server (?ev ''tools'') =
      Responds (errorResponse (Inl INTERNAL_ERROR) ''s1'')"
    by (subst handleMCP_request [where
          node = "HObject [(''call'', HFunction H_tools_call), (''list'', HFunction H_tools_list)]"
          and rpc = "\<lparr>rpc_method = ''tools'', rpc_params = ps, rpc_id = i\<rparr>"])
       (simp_all add: startsWith_def walk_tools sid respond_def)
  show ?thesis
    using a b by (simp add: errorResponse_def mcpError'_def opt_str_or_def)
qed

section \<open>Gating on empty registries\<close>

lemma MCPHandler_new_simps [simp]:
  "hasTools (MCPHandler_new server event domain sid) = non_empty (srv_tools server)"
  "hasResources (MCPHandler_new server event domain sid) = non_empty (srv_resources server)"
  "hasPrompts (MCPHandler_new server event domain sid) = non_empty (srv_prompts server)"
  "hasWidgets (MCPHandler_new server event domain sid) = non_empty (srv_widgets server)"
  "h_server (MCPHandler_new server event domain sid) = server"
  "h_event (MCPHandler_new server event domain sid) = event"
  "h_domain (MCPHandler_new server event domain sid) = domain"
  "h_sessionId (MCPHandler_new server event domain sid) = sid"
  by (simp_all add: MCPHandler_new_def)

lemma gate_tools:
  "\<not> hasTools this \<Longrightarrow> tools_list this = Inr (Inl (mcpError METHOD_NOT_FOUND))"
  "\<not> hasTools this \<Longrightarrow> tools_call ss this payload = Inr (Inl (mcpError METHOD_NOT_FOUND))"
  by (simp_all add: tools_list_def tools_call_def)

lemma gate_prompts:
  "\<not> hasPrompts this \<Longrightarrow> prompts_list this = Inr (Inl (mcpError METHOD_NOT_FOUND))"
  "\<not> hasPrompts this \<Longrightarrow> prompts_get this payload = Inr (Inl (mcpError METHOD_NOT_FOUND))"
  by (simp_all add: prompts_list_def prompts_get_def)

lemma gate_resources:
  "\<not> hasResources this \<Longrightarrow>
     resources_templates_list this = Inr (Inl (mcpError METHOD_NOT_FOUND))"
  "\<not> hasResources this \<Longrightarrow> \<not> hasWidgets this \<Longrightarrow>
     resources_list this = Inr (Inl (mcpError METHOD_NOT_FOUND))"
  "\<not> hasResources this \<Longrightarrow> \<not> hasWidgets this \<Longrightarrow>
     resources_read this payload = Inr (Inl (mcpError METHOD_NOT_FOUND))"
  by (simp_all add: resources_templates_list_def resources_list_def resources_read_def)

lemma respond_error:
  "respond sid i (Inr (Inl (mcpError code))) = errorResponse (Inl code) sid"
  by (simp add: respond_def errorResponse_def)

text \<open>
  C4. A request for a method whose governing registry is empty is answered with
  METHOD_NOT_FOUND: tools/list and tools/call without tools, prompts/list and prompts/get
  without prompts, resources/templates/list without resources, resources/list and
  resources/read without resources and without widgets. The gate is the first statement of
  each handler, so the parameters of the request do not matter.
\<close>

theorem empty_registry_method_not_found:
  assumes "startsWith (ev_pathname event) ''/mcp''"
    and "ev_method event \<notin> {''OPTIONS'', ''GET'', ''DELETE''}"
    and "ev_body event = Request rpc"
    and "(rpc_method rpc \<in> {''tools/list'', ''tools/call''} \<and> \<not> non_empty (srv_tools server))
       \<or> (rpc_method rpc \<in> {''prompts/list'', ''prompts/get''}
            \<and> \<not> non_empty (srv_prompts server))
       \<or> (rpc_method rpc = ''resources/templates/list'' \<and> \<not> non_empty (srv_resources server))
       \<or> (rpc_method rpc \<in> {''resources/list'', ''resources/read''}
            \<and> \<not> non_empty (srv_resources server) \<and> \<not> non_empty (srv_widgets server))"
  shows "handleMCP ext server event =
    Responds (errorResponse (Inl METHOD_NOT_FOUND) (session_of ext event))"
proof -
  have m: "ev_method event \<noteq> ''OPTIONS''" "ev_method event \<noteq> ''GET''"
    "ev_method event \<noteq> ''DELETE''"
    using assms(2) by auto
  note req = handleMCP_request [OF assms(1) m assms(3)]
  consider (tl) "rpc_method rpc = ''tools/list''" "\<not> non_empty (srv_tools server)"
    | (tc) "rpc_method rpc = ''tools/call''" "\<not> non_empty (srv_tools server)"
    | (pl) "rpc_method rpc = ''prompts/list''" "\<not> non_empty (srv_prompts server)"
    | (pg) "rpc_method rpc = ''prompts/get''" "\<not> non_empty (srv_prompts server)"
    | (rt) "rpc_method rpc = ''resources/templates/list''" "\<not> non_empty (srv_resources server)"
    | (rl) "rpc_method rpc = ''resources/list''" "\<not> non_empty (srv_resources server)"
        "\<not> non_empty (srv_widgets server)"
    | (rr) "rpc_method rpc = ''resources/read''" "\<not> non_empty (srv_resources server)"
        "\<not> non_empty (srv_widgets server)"
    using assms(4) by blast
  then show ?thesis
  proof cases
    case tl
    show ?thesis
      using tl(2) by (subst req [where node = "HFunction H_tools_list"])
        (simp_all add: tl(1) walk_methods gate_tools respond_error)
  next
    case tc
    show ?thesis
      using tc(2) by (subst req [where node = "HFunction H_tools_call"])
        (simp_all add: tc(1) walk_methods gate_tools respond_error)
  next
    case pl
    show ?thesis
      using pl(2) by (subst req [where node = "HFunction H_prompts_list"])
        (simp_all add: pl(1) walk_methods gate_prompts respond_error)
  next
    case pg
    show ?thesis
      using pg(2) by (subst req [where node = "HFunction H_prompts_get"])
        (simp_all add: pg(1) walk_methods gate_prompts respond_error)
  next
    case rt
    show ?thesis
      using rt(2) by (subst req [where node = "HFunction H_resources_templates_list"])
        (simp_all add: rt(1) walk_methods gate_resources respond_error)
  next
    case rl
    show ?thesis
      using rl(2,3) by (subst req [where node = "HFunction H_resources_list"])
        (simp_all add: rl(1) walk_methods gate_resources respond_error)
  next
    case rr
    show ?thesis
      using rr(2,3) by (subst req [where node = "HFunction H_resources_read"])
        (simp_all add: rr(1) walk_methods gate_resources respond_error)
  qed
qed

lemma ex_post_simps [simp]:
  "ev_pathname (ex_post session method ps) = ''/mcp''"
  "ev_method (ex_post session method ps) = ''POST''"
  "ev_origin (ex_post session method ps) = ''http://localhost''"
  "ev_session_header (ex_post session method ps) = session"
  "ev_body (ex_post session method ps) =
     Request \<lparr>rpc_method = method, rpc_params = ps, rpc_id = JNum 1\<rparr>"
  by (simp_all add: ex_post_def)

lemma session_of_simps [simp]:
  "session_of ext (ex_post (Some ''s1'') method ps) = ''s1''"
  "session_of ex_ext (ex_post None method ps) = ''generated-uuid''"
  by (simp_all add: session_of_def opt_str_or_def str_or_def ex_ext_def)

theorem empty_registry_method_not_found_witness:
  "handleMCP ex_ext ex_empty_server (ex_post (Some ''s1'') ''tools/list'' NoParams)
     = Responds (errorResponse (Inl METHOD_NOT_FOUND) ''s1'')
   \<and> handleMCP ex_ext ex_empty_server
       (ex_post (Some ''s1'') ''tools/call'' (NameParams ''greet'' JUndefined))
     = Responds (errorResponse (Inl METHOD_NOT_FOUND) ''s1'')
   \<and> handleMCP ex_ext ex_empty_server (ex_post (Some ''s1'') ''prompts/list'' NoParams)
     = Responds (errorResponse (Inl METHOD_NOT_FOUND) ''s1'')
   \<and> handleMCP ex_ext ex_empty_server
       (ex_post (Some ''s1'') ''prompts/get'' (NameParams ''greet'' JUndefined))
     = Responds (errorResponse (Inl METHOD_NOT_FOUND) ''s1'')
   \<and> handleMCP ex_ext ex_empty_server
       (ex_post (Some ''s1'') ''resources/templates/list'' NoParams)
     = Responds (errorResponse (Inl METHOD_NOT_FOUND) ''s1'')
   \<and> handleMCP ex_ext ex_empty_server (ex_post (Some ''s1'') ''resources/list'' NoParams)
     = Responds (errorResponse (Inl METHOD_NOT_FOUND) ''s1'')
   \<and> handleMCP ex_ext ex_empty_server
       (ex_post (Some ''s1'') ''resources/read'' (UriParams ''file:///notes''))
     = Responds (errorResponse (Inl METHOD_NOT_FOUND) ''s1'')"
proof -
  have e: "\<not> non_empty (srv_tools ex_empty_server)" "\<not> non_empty (srv_prompts ex_empty_server)"
    "\<not> non_empty (srv_resources ex_empty_server)" "\<not> non_empty (srv_widgets ex_empty_server)"
    by (simp_all add: ex_empty_server_def non_empty_def Object_keys_def)
  have s: "startsWith ''/mcp'' ''/mcp''" by (simp add: startsWith_def)
  note t = empty_registry_method_not_found [where ext = ex_ext and server = ex_empty_server]
  show ?thesis
    using e s
    by (intro conjI)
       (subst t, simp, simp, simp, simp, simp)+
qed

section \<open>Calling tools and prompts\<close>

lemma non_empty_lookup:
  "map_of r k = Some v \<Longrightarrow> non_empty (Some r)"
  by (cases r) (simp_all add: non_empty_def Object_keys_def)

lemma get_prop_own: "map_of r k = Some v \<Longrightarrow> get_prop r k = Own v"
  by (simp add: get_prop_def)



text \<open>
  C9. A tool without an input schema validates every input to \<open>undefined\<close>: its handler
  is applied to a payload whose input is \<open>undefined\<close>, whatever arguments the request
  carries, so the result of the call is the same for all arguments.
\<close>

theorem schemaless_tool_input_undefined:
  assumes "srv_tools server = Some ts" and "map_of ts name = Some tool"
    and "tool_schema tool = None" and "tool_handler tool = Some h"
  shows "Tool_validate tool args = Inr JUndefined
       \<and> tools_call ss (MCPHandler_new server event domain sid) (NameParams name args) =
          (let result = Tool_shape ss tool
                 (h \<lparr>tp_input = JUndefined, tp_event = event, tp_sessionId = Some sid\<rparr>)
           in Inr (Inr (CallTool
                (case tool_widget tool of
                   None \<Rightarrow> result
                 | Some w \<Rightarrow> result\<lparr>ctr_meta :=
                     Some ((case ctr_meta result of None \<Rightarrow> Map.empty | Some m \<Rightarrow> m) ++
                           toolMetadata w)\<rparr>))))
       \<and> tools_call ss (MCPHandler_new server event domain sid) (NameParams name args) =
         tools_call ss (MCPHandler_new server event domain sid) (NameParams name JUndefined)"
  using assms non_empty_lookup [OF assms(2)]
  by (simp add: Tool_validate_def tools_call_def or_empty_def get_prop_own Tool_call_def Let_def
        split: option.splits)

theorem schemaless_tool_input_undefined_witness:
  "tools_call (ext_safeStringify ex_ext) (ex_handler ex_tool_server)
     (NameParams ''echo'' (JObj [(''name'', JStr ''Ada'')]))
   = Inr (Inr (CallTool \<lparr>ctr_content = [TextContent ''no input''], ctr_isError = None,
        ctr_structuredContent = None, ctr_meta = None\<rparr>))"
  using schemaless_tool_input_undefined [where server = ex_tool_server
      and ts = "the (srv_tools ex_tool_server)" and name = "''echo''" and tool = ex_echo_tool
      and h = "the (tool_handler ex_echo_tool)" and ss = "ext_safeStringify ex_ext"
      and args = "JObj [(''name'', JStr ''Ada'')]"
      and event = "ex_post (Some ''s1'') ''tools/call'' NoParams"
      and domain = "''http://localhost''" and sid = "''s1''"]
  by (simp add: ex_tool_server_def ex_echo_tool_def ex_handler_def Tool_shape_def)

text \<open>
  C2, as amended. When the handler of a registered tool throws anything but the error
  sentinel during tools/call, the call returns a tool result with \<open>isError: true\<close> and a
  single text block; it neither lets the exception escape nor returns a protocol error. The
  text is the exception's message when the exception is an \<open>Error\<close> with a non-empty
  message, and \<open>Unknown error\<close> otherwise.
\<close>

theorem tool_exception_becomes_error_result:
  assumes "srv_tools server = Some ts" and "map_of ts name = Some tool"
    and "Tool_validate tool args = Inr input" and "tool_handler tool = Some h"
    and "h \<lparr>tp_input = input, tp_event = event, tp_sessionId = Some sid\<rparr> = Inl err"
    and "\<forall>m. err \<noteq> ThrownToolError m"
  shows "\<exists>r. tools_call ss (MCPHandler_new server event domain sid) (NameParams name args)
               = Inr (Inr (CallTool r))
           \<and> ctr_isError r = Some True
           \<and> ctr_content r =
               [TextContent
                  (case err of
                     ThrownError m \<Rightarrow> if m = [] then ''Unknown error'' else m
                   | ThrownMCPError e \<Rightarrow>
                       if err_message e = [] then ''Unknown error'' else err_message e
                   | _ \<Rightarrow> ''Unknown error'')]"
  using assms non_empty_lookup [OF assms(2)]
  by (cases err)
     (simp_all add: tools_call_def or_empty_def get_prop_own Tool_call_def Tool_shape_def
        ToolError_result_def opt_str_or_def str_or_def Let_def split: option.splits)

theorem tool_exception_becomes_error_result_witness:
  "\<exists>r. tools_call (ext_safeStringify ex_ext) (ex_handler ex_tool_server)
          (NameParams ''disk'' JUndefined) = Inr (Inr (CallTool r))
       \<and> ctr_isError r = Some True \<and> ctr_content r = [TextContent ''disk full'']"
  using tool_exception_becomes_error_result [where server = ex_tool_server
      and ts = "the (srv_tools ex_tool_server)" and name = "''disk''"
      and tool = "ex_failing_tool (ThrownError ''disk full'')"
      and h = "\<lambda>p. Inl (ThrownError ''disk full'')" and ss = "ext_safeStringify ex_ext"
      and args = JUndefined and input = JUndefined and err = "ThrownError ''disk full''"
      and event = "ex_post (Some ''s1'') ''tools/call'' NoParams"
      and domain = "''http://localhost''" and sid = "''s1''"]
  by (simp add: ex_tool_server_def ex_failing_tool_def ex_handler_def Tool_validate_def)

text \<open>
  C2 as stated fails for an exception without a message: the tool \<open>boom\<close> throws an
  \<open>Error\<close> whose message is empty, and the text of the result is \<open>Unknown error\<close>.
\<close>

theorem empty_message_exception_counterexample:
  "tools_call (ext_safeStringify ex_ext) (ex_handler ex_tool_server)
     (NameParams ''boom'' JUndefined)
   = Inr (Inr (CallTool \<lparr>ctr_content = [TextContent ''Unknown error''], ctr_isError = Some True,
        ctr_structuredContent = None, ctr_meta = None\<rparr>))
   \<and> [TextContent ''Unknown error''] \<noteq> [TextContent []]"
  by (simp add: ex_tool_server_def ex_failing_tool_def ex_handler_def Tool_validate_def
      tools_call_def or_empty_def get_prop_def non_empty_def Object_keys_def
      Tool_call_def Tool_shape_def ToolError_result_def opt_str_or_def str_or_def)

lemma toolMetadata_template:
  "toolMetadata w ''openai/outputTemplate'' = Some (JStr (''widget://'' @ widget_id w @ ''.js''))"
  by (simp add: toolMetadata_def)

lemma widget_keys_win: "k \<in> dom (toolMetadata w) \<Longrightarrow> (m ++ toolMetadata w) k = toolMetadata w k"
  by (auto simp: map_add_def split: option.splits)

lemma map_throwing_nth:
  "map_throwing f xs = Inr ys \<Longrightarrow> length ys = length xs \<and> (\<forall>i < length xs. f (xs ! i) = Inr (ys ! i))"
proof (induction xs arbitrary: ys)
  case Nil
  then show ?case by simp
next
  case (Cons x xs)
  then obtain y ys' where y: "f x = Inr y" "map_throwing f xs = Inr ys'" "ys = y # ys'"
    by (auto split: sum.splits)
  from Cons.IH [OF y(2)] y show ?case
    by (auto simp: nth_Cons split: nat.splits)
qed

lemma defineTool_meta:
  "defineTool name tool = Inr d \<Longrightarrow>
     st_name d = name \<and>
     st_meta d = (case tool_meta tool of None \<Rightarrow> Map.empty | Some m \<Rightarrow> m) ++
                 (case tool_widget tool of None \<Rightarrow> Map.empty | Some w \<Rightarrow> toolMetadata w)"
  by (auto simp: defineTool_def split: sum.splits)

lemma map_of_distinct_nth:
  "distinct (map fst ts) \<Longrightarrow> i < length ts \<Longrightarrow> ts ! i = (k, v) \<Longrightarrow> map_of ts k = Some v"
  by (metis map_of_eq_Some_iff nth_mem)

text \<open>
  C3. For a tool linked to a widget: its descriptor in tools/list has the tool's own
  metadata overridden by the widget's tool metadata, and so has the \<open>_meta\<close> of every
  result of tools/call, error results included (a protocol error, returned when the input
  fails validation before the handler runs, is not a result); in particular
  \<open>openai/outputTemplate\<close> is \<open>widget://\<close> followed by the widget's identifier and
  \<open>.js\<close>, and every key of the
  widget's metadata has the widget's value. A call whose input passes validation always
  has such a result.
\<close>

theorem widget_tool_metadata:
  assumes "srv_tools server = Some ts" and "distinct (map fst ts)"
    and "i < length ts" and "ts ! i = (name, tool)" and "tool_widget tool = Some w"
  shows "(\<forall>ds. tools_list (MCPHandler_new server event domain sid) = Inr (Inr (ListTools ds)) \<longrightarrow>
            st_name (ds ! i) = name
          \<and> st_meta (ds ! i) =
              (case tool_meta tool of None \<Rightarrow> Map.empty | Some m \<Rightarrow> m) ++ toolMetadata w
          \<and> st_meta (ds ! i) ''openai/outputTemplate''
              = Some (JStr (''widget://'' @ widget_id w @ ''.js''))
          \<and> (\<forall>k \<in> dom (toolMetadata w). st_meta (ds ! i) k = toolMetadata w k))
       \<and> (\<forall>args res.
            tools_call ss (MCPHandler_new server event domain sid) (NameParams name args)
              = Inr (Inr res) \<longrightarrow>
            (\<exists>r input. Tool_validate tool args = Inr input
               \<and> res = CallTool r
               \<and> ctr_content r = ctr_content (Tool_call ss tool input event (Some sid))
               \<and> ctr_isError r = ctr_isError (Tool_call ss tool input event (Some sid))
               \<and> ctr_meta r = Some
                   ((case ctr_meta (Tool_call ss tool input event (Some sid)) of
                       None \<Rightarrow> Map.empty | Some m \<Rightarrow> m) ++ toolMetadata w)
               \<and> the (ctr_meta r) ''openai/outputTemplate''
                   = Some (JStr (''widget://'' @ widget_id w @ ''.js''))
               \<and> (\<forall>k \<in> dom (toolMetadata w). the (ctr_meta r) k = toolMetadata w k)))
       \<and> (\<forall>args input. Tool_validate tool args = Inr input \<longrightarrow>
            (\<exists>r. tools_call ss (MCPHandler_new server event domain sid) (NameParams name args)
                   = Inr (Inr (CallTool r))))"
proof (intro conjI allI impI)
  fix ds
  assume l: "tools_list (MCPHandler_new server event domain sid) = Inr (Inr (ListTools ds))"
  have ne: "non_empty (Some ts)"
    using assms(3) by (cases ts) (simp_all add: non_empty_def Object_keys_def)
  from l ne assms(1) have "defineTools ts = Inr ds"
    by (simp add: tools_list_def or_empty_def split: sum.splits)
  then have "defineTool name tool = Inr (ds ! i)"
    using map_throwing_nth [of "\<lambda>(key, tool). defineTool key tool" ts ds] assms(3,4)
    by (auto simp: defineTools_def)
  from defineTool_meta [OF this] assms(5)
  have d: "st_name (ds ! i) = name"
    "st_meta (ds ! i) = (case tool_meta tool of None \<Rightarrow> Map.empty | Some m \<Rightarrow> m) ++ toolMetadata w"
    by simp_all
  show "st_name (ds ! i) = name" by (rule d(1))
  show "st_meta (ds ! i) = (case tool_meta tool of None \<Rightarrow> Map.empty | Some m \<Rightarrow> m) ++ toolMetadata w"
    by (rule d(2))
  show "st_meta (ds ! i) ''openai/outputTemplate'' = Some (JStr (''widget://'' @ widget_id w @ ''.js''))"
    by (simp add: d(2) map_add_def toolMetadata_template)
  show "\<forall>k \<in> dom (toolMetadata w). st_meta (ds ! i) k = toolMetadata w k"
    by (simp add: d(2) widget_keys_win)
next
  fix args res
  assume c: "tools_call ss (MCPHandler_new server event domain sid) (NameParams name args)
              = Inr (Inr res)"
  have lk: "map_of ts name = Some tool"
    by (rule map_of_distinct_nth [OF assms(2,3,4)])
  from c assms(1,5) lk non_empty_lookup [OF lk]
  obtain input where v: "Tool_validate tool args = Inr input"
    and r: "res = CallTool ((Tool_call ss tool input event (Some sid))\<lparr>ctr_meta :=
              Some ((case ctr_meta (Tool_call ss tool input event (Some sid)) of
                       None \<Rightarrow> Map.empty | Some m \<Rightarrow> m) ++ toolMetadata w)\<rparr>)"
    by (auto simp: tools_call_def or_empty_def get_prop_own Let_def
          split: sum.splits thrown.splits)
  show "\<exists>r input. Tool_validate tool args = Inr input
               \<and> res = CallTool r
               \<and> ctr_content r = ctr_content (Tool_call ss tool input event (Some sid))
               \<and> ctr_isError r = ctr_isError (Tool_call ss tool input event (Some sid))
               \<and> ctr_meta r = Some
                   ((case ctr_meta (Tool_call ss tool input event (Some sid)) of
                       None \<Rightarrow> Map.empty | Some m \<Rightarrow> m) ++ toolMetadata w)
               \<and> the (ctr_meta r) ''openai/outputTemplate''
                   = Some (JStr (''widget://'' @ widget_id w @ ''.js''))
               \<and> (\<forall>k \<in> dom (toolMetadata w). the (ctr_meta r) k = toolMetadata w k)"
  proof (intro exI conjI)
    let ?c = "Tool_call ss tool input event (Some sid)"
    let ?m = "(case ctr_meta ?c of None \<Rightarrow> Map.empty | Some m \<Rightarrow> m) ++ toolMetadata w"
    show "Tool_validate tool args = Inr input" by (rule v)
    show "res = CallTool (?c\<lparr>ctr_meta := Some ?m\<rparr>)" by (rule r)
    show "ctr_content (?c\<lparr>ctr_meta := Some ?m\<rparr>) = ctr_content ?c" by simp
    show "ctr_isError (?c\<lparr>ctr_meta := Some ?m\<rparr>) = ctr_isError ?c" by simp
    show "ctr_meta (?c\<lparr>ctr_meta := Some ?m\<rparr>) = Some ?m" by simp
    show "the (ctr_meta (?c\<lparr>ctr_meta := Some ?m\<rparr>)) ''openai/outputTemplate''
            = Some (JStr (''widget://'' @ widget_id w @ ''.js''))"
      by (simp add: map_add_def toolMetadata_template)
    show "\<forall>k \<in> dom (toolMetadata w).
            the (ctr_meta (?c\<lparr>ctr_meta := Some ?m\<rparr>)) k = toolMetadata w k"
      by (simp add: widget_keys_win)
  qed
next
  fix args input
  assume v: "Tool_validate tool args = Inr input"
  have lk: "map_of ts name = Some tool"
    by (rule map_of_distinct_nth [OF assms(2,3,4)])
  show "\<exists>r. tools_call ss (MCPHandler_new server event domain sid) (NameParams name args)
                   = Inr (Inr (CallTool r))"
    using v assms(1,5) lk non_empty_lookup [OF lk]
    by (simp add: tools_call_def or_empty_def get_prop_own Let_def)
qed

theorem widget_tool_metadata_witness:
  "(\<exists>ds. tools_list (ex_handler ex_widget_server) = Inr (Inr (ListTools ds))
       \<and> st_name (ds ! 1) = ''greet''
       \<and> st_meta (ds ! 1) ''openai/outputTemplate'' = Some (JStr ''widget://greeting.js'')
       \<and> st_meta (ds ! 1) ''version'' = Some (JStr ''1.0''))
   \<and> (\<exists>r. tools_call (ext_safeStringify ex_ext) (ex_handler ex_widget_server)
             (NameParams ''greet'' JUndefined) = Inr (Inr (CallTool r))
       \<and> ctr_isError r = Some True
       \<and> the (ctr_meta r) ''openai/outputTemplate'' = Some (JStr ''widget://greeting.js''))"
proof -
  let ?ts = "[(''echo'', ex_echo_tool), (''greet'', ex_widget_tool)]"
  let ?ev = "ex_post (Some ''s1'') ''tools/call'' NoParams"
  note t = widget_tool_metadata [where server = ex_widget_server and ts = ?ts and i = 1
      and name = "''greet''" and tool = ex_widget_tool and w = ex_greeting
      and event = ?ev and domain = "''http://localhost''" and sid = "''s1''"
      and ss = "ext_safeStringify ex_ext"]
  have h: "srv_tools ex_widget_server = Some ?ts" "distinct (map fst ?ts)" "1 < length ?ts"
    "?ts ! 1 = (''greet'', ex_widget_tool)" "tool_widget ex_widget_tool = Some ex_greeting"
    by (simp_all add: ex_widget_server_def ex_widget_tool_def)
  note t' = t [OF h]
  have v: "Tool_validate ex_widget_tool JUndefined = Inr JUndefined"
    by (simp add: Tool_validate_def ex_widget_tool_def)
  have e: "ctr_isError (Tool_call (ext_safeStringify ex_ext) ex_widget_tool JUndefined ?ev
             (Some ''s1'')) = Some True"
    by (simp add: Tool_call_def Tool_shape_def ex_widget_tool_def ToolError_result_def)
  have l: "\<exists>ds. tools_list (ex_handler ex_widget_server) = Inr (Inr (ListTools ds))"
    by (simp add: tools_list_def ex_handler_def ex_widget_server_def non_empty_def
          Object_keys_def or_empty_def defineTools_def defineTool_def ex_echo_tool_def
          ex_widget_tool_def)
  then obtain ds where ds: "tools_list (ex_handler ex_widget_server) = Inr (Inr (ListTools ds))"
    by blast
  from t' ds have a: "st_name (ds ! 1) = ''greet''"
    "st_meta (ds ! 1) ''openai/outputTemplate'' = Some (JStr (''widget://'' @ widget_id ex_greeting @ ''.js''))"
    "st_meta (ds ! 1) = (case tool_meta ex_widget_tool of None \<Rightarrow> Map.empty | Some m \<Rightarrow> m) ++ toolMetadata ex_greeting"
    unfolding ex_handler_def by blast+
  from a(3) have a4: "st_meta (ds ! 1) ''version'' = Some (JStr ''1.0'')"
    by (simp add: ex_widget_tool_def toolMetadata_def map_add_def)
  from t' v obtain r where r: "tools_call (ext_safeStringify ex_ext) (ex_handler ex_widget_server)
             (NameParams ''greet'' JUndefined) = Inr (Inr (CallTool r))"
    unfolding ex_handler_def by blast
  with t' v have "ctr_isError r = ctr_isError (Tool_call (ext_safeStringify ex_ext) ex_widget_tool JUndefined ?ev (Some ''s1''))"
    "the (ctr_meta r) ''openai/outputTemplate'' = Some (JStr (''widget://'' @ widget_id ex_greeting @ ''.js''))"
    unfolding ex_handler_def by fastforce+
  with e r ds a a4 show ?thesis
    by (auto simp: ex_greeting_def)
qed

section \<open>Reading resources\<close>

lemma isTemplate_iff:
  "isTemplate s \<longleftrightarrow>
     (\<exists>a b c. s = a @ CHR ''{'' # b @ CHR ''}'' # c \<and> CHR ''{'' \<notin> set b \<and> CHR ''}'' \<notin> set b)"
proof -
  let ?P = "\<lambda>x. x \<noteq> CHR ''{'' \<and> x \<noteq> CHR ''}''"
  have here: "brace_here t \<longleftrightarrow>
      (\<exists>b c. t = CHR ''{'' # b @ CHR ''}'' # c \<and> CHR ''{'' \<notin> set b \<and> CHR ''}'' \<notin> set b)" for t
  proof
    assume "brace_here t"
    then obtain cs c where t: "t = CHR ''{'' # cs" and d: "dropWhile ?P cs = CHR ''}'' # c"
      by (auto simp: brace_here_def split: list.splits)
    have "cs = takeWhile ?P cs @ CHR ''}'' # c"
      using takeWhile_dropWhile_id [of ?P cs] d by simp
    moreover have "CHR ''{'' \<notin> set (takeWhile ?P cs)" "CHR ''}'' \<notin> set (takeWhile ?P cs)"
      by (auto dest: set_takeWhileD)
    ultimately show "\<exists>b c. t = CHR ''{'' # b @ CHR ''}'' # c \<and> CHR ''{'' \<notin> set b \<and> CHR ''}'' \<notin> set b"
      using t by blast
  next
    assume "\<exists>b c. t = CHR ''{'' # b @ CHR ''}'' # c \<and> CHR ''{'' \<notin> set b \<and> CHR ''}'' \<notin> set b"
    then obtain b c where t: "t = CHR ''{'' # b @ CHR ''}'' # c"
      and b: "CHR ''{'' \<notin> set b" "CHR ''}'' \<notin> set b" by blast
    have "dropWhile ?P (b @ CHR ''}'' # c) = CHR ''}'' # c"
      using b by (subst dropWhile_append2) auto
    then show "brace_here t" by (simp add: t brace_here_def)
  qed
  show ?thesis
  proof (induction s)
    case Nil
    then show ?case by simp
  next
    case (Cons x xs)
    show ?case
    proof
      assume "isTemplate (x # xs)"
      then consider "brace_here (x # xs)" | "isTemplate xs" by auto
      then show "\<exists>a b c. x # xs = a @ CHR ''{'' # b @ CHR ''}'' # c \<and> CHR ''{'' \<notin> set b \<and> CHR ''}'' \<notin> set b"
      proof cases
        case 1
        then show ?thesis using here [of "x # xs"] by (metis append_Nil)
      next
        case 2
        then obtain a b c where "xs = a @ CHR ''{'' # b @ CHR ''}'' # c" "CHR ''{'' \<notin> set b" "CHR ''}'' \<notin> set b"
          using Cons.IH by blast
        then show ?thesis by (metis append_Cons)
      qed
    next
      assume "\<exists>a b c. x # xs = a @ CHR ''{'' # b @ CHR ''}'' # c \<and> CHR ''{'' \<notin> set b \<and> CHR ''}'' \<notin> set b"
      then obtain a b c where e: "x # xs = a @ CHR ''{'' # b @ CHR ''}'' # c"
        and b: "CHR ''{'' \<notin> set b" "CHR ''}'' \<notin> set b" by blast
      show "isTemplate (x # xs)"
      proof (cases a)
        case Nil
        then have "brace_here (x # xs)" using here [of "x # xs"] e b by auto
        then show ?thesis by simp
      next
        case (Cons y ys)
        then have "xs = ys @ CHR ''{'' # b @ CHR ''}'' # c" using e by simp
        then show ?thesis using Cons.IH b by auto
      qed
    qed
  qed
qed

lemma find_split:
  "xs = pre @ x # post \<Longrightarrow> P x \<Longrightarrow> \<forall>y \<in> set pre. \<not> P y \<Longrightarrow> find P xs = Some x"
  by (induction pre arbitrary: xs) auto

lemma find_none: "\<forall>y \<in> set xs. \<not> P y \<Longrightarrow> find P xs = None"
  by (simp add: find_None_iff)

lemma read_target_exact:
  "rs = pre @ r # post \<Longrightarrow> res_uri r = Some uri \<Longrightarrow> \<forall>x \<in> set pre. res_uri x \<noteq> Some uri \<Longrightarrow>
   read_target rs uri = Some r"
  by (simp add: read_target_def find_split [where P = "\<lambda>x. res_uri x = Some uri"])

lemma read_target_template:
  "\<forall>x \<in> set rs. res_uri x \<noteq> Some uri \<Longrightarrow> rs = pre @ r # post \<Longrightarrow>
   isTemplate (opt_str_or (res_uri r) []) \<Longrightarrow>
   \<forall>x \<in> set pre. \<not> isTemplate (opt_str_or (res_uri x) []) \<Longrightarrow>
   read_target rs uri = Some r"
  using find_none [where P = "\<lambda>x. res_uri x = Some uri" and xs = rs]
    find_split [where P = "\<lambda>x. isTemplate (opt_str_or (res_uri x) [])" and xs = rs]
  by (simp add: read_target_def)

lemma read_target_none:
  "\<forall>x \<in> set rs. res_uri x \<noteq> Some uri \<and> \<not> isTemplate (opt_str_or (res_uri x) []) \<Longrightarrow>
   read_target rs uri = None"
  using find_none [where P = "\<lambda>x. res_uri x = Some uri" and xs = rs]
    find_none [where P = "\<lambda>x. isTemplate (opt_str_or (res_uri x) [])" and xs = rs]
  by (simp add: read_target_def)

lemma read_target_mem: "read_target rs uri = Some r \<Longrightarrow> r \<in> set rs"
  by (auto simp: read_target_def find_Some_iff split: option.splits)

lemma resources_read_plain:
  assumes "non_empty (srv_resources server) \<or> non_empty (srv_widgets server)"
    and "\<not> startsWith uri ''widget://''"
  shows "resources_read (MCPHandler_new server event domain sid) (UriParams uri) =
     (case read_target (Object_values (or_empty (srv_resources server))) uri of
        None \<Rightarrow> Inr (Inl (mcpError RESOURCE_NOT_FOUND))
      | Some target \<Rightarrow> map_sum id (map_sum id ReadResource) (Resource_call target uri sid))"
  using assms by (auto simp: resources_read_def split: option.splits)

text \<open>
  C7, as amended. On a server that has at least one resource or widget, a resources/read
  of a uri outside the \<open>widget://\<close> scheme is dispatched to the first resource whose
  configured uri is the requested uri; if there is none, to the first resource whose
  configured uri has a brace-delimited placeholder (\<^const>\<open>isTemplate\<close>, see
  \<open>isTemplate_iff\<close> for what it recognises), whether or not the requested uri fits that
  template; and if there is no such resource either, the answer is RESOURCE_NOT_FOUND.
\<close>

theorem read_dispatch_order:
  assumes "non_empty (srv_resources server) \<or> non_empty (srv_widgets server)"
    and "\<not> startsWith uri ''widget://''"
    and "rs = Object_values (or_empty (srv_resources server))"
  shows "(\<forall>pre r post.
            rs = pre @ r # post \<and> res_uri r = Some uri \<and> (\<forall>x \<in> set pre. res_uri x \<noteq> Some uri) \<longrightarrow>
            resources_read (MCPHandler_new server event domain sid) (UriParams uri)
              = map_sum id (map_sum id ReadResource) (Resource_call r uri sid))
       \<and> (\<forall>pre r post.
            (\<forall>x \<in> set rs. res_uri x \<noteq> Some uri) \<and> rs = pre @ r # post
            \<and> isTemplate (opt_str_or (res_uri r) [])
            \<and> (\<forall>x \<in> set pre. \<not> isTemplate (opt_str_or (res_uri x) [])) \<longrightarrow>
            resources_read (MCPHandler_new server event domain sid) (UriParams uri)
              = map_sum id (map_sum id ReadResource) (Resource_call r uri sid))
       \<and> ((\<forall>x \<in> set rs. res_uri x \<noteq> Some uri \<and> \<not> isTemplate (opt_str_or (res_uri x) [])) \<longrightarrow>
            resources_read (MCPHandler_new server event domain sid) (UriParams uri)
              = Inr (Inl (mcpError RESOURCE_NOT_FOUND)))"
proof (intro conjI allI impI)
  fix pre r post
  assume "rs = pre @ r # post \<and> res_uri r = Some uri \<and> (\<forall>x \<in> set pre. res_uri x \<noteq> Some uri)"
  then have "read_target rs uri = Some r"
    using read_target_exact by blast
  then show "resources_read (MCPHandler_new server event domain sid) (UriParams uri)
              = map_sum id (map_sum id ReadResource) (Resource_call r uri sid)"
    using resources_read_plain [OF assms(1,2)] assms(3) by simp
next
  fix pre r post
  assume "(\<forall>x \<in> set rs. res_uri x \<noteq> Some uri) \<and> rs = pre @ r # post
            \<and> isTemplate (opt_str_or (res_uri r) [])
            \<and> (\<forall>x \<in> set pre. \<not> isTemplate (opt_str_or (res_uri x) []))"
  then have "read_target rs uri = Some r"
    using read_target_template by blast
  then show "resources_read (MCPHandler_new server event domain sid) (UriParams uri)
              = map_sum id (map_sum id ReadResource) (Resource_call r uri sid)"
    using resources_read_plain [OF assms(1,2)] assms(3) by simp
next
  assume "\<forall>x \<in> set rs. res_uri x \<noteq> Some uri \<and> \<not> isTemplate (opt_str_or (res_uri x) [])"
  then have "read_target rs uri = None"
    by (rule read_target_none)
  then show "resources_read (MCPHandler_new server event domain sid) (UriParams uri)
              = Inr (Inl (mcpError RESOURCE_NOT_FOUND))"
    using resources_read_plain [OF assms(1,2)] assms(3) by simp
qed

text \<open>
  C6. A resources/read that is dispatched to a registered resource, by what the handler
  returns: a string gives a single text entry with the resource's declared MIME type; a
  binary value on a resource without a declared MIME type gives INTERNAL_ERROR; any value
  that is neither a string nor binary (a number, say) gives RESOURCE_NOT_FOUND.
\<close>

theorem resource_return_shapes:
  assumes "srv_resources server = Some rs"
    and "\<not> startsWith uri ''widget://''"
    and "read_target (Object_values rs) uri = Some r"
    and "res_handler r = Some h"
    and "h \<lparr>rp_uri = uri, rp_sessionId = sid\<rparr> = Inr returned"
  shows "(\<forall>s. returned = RetValue (JStr s) \<longrightarrow>
            resources_read (MCPHandler_new server event domain sid) (UriParams uri)
              = Inr (Inr (ReadResource \<lparr>contents =
                  [\<lparr>rc_uri = uri, rc_mimeType = res_type r, rc_text = s, rc_meta = None\<rparr>]\<rparr>)))
       \<and> (\<forall>b. returned = RetBinary b \<and> res_type r = None \<longrightarrow>
            resources_read (MCPHandler_new server event domain sid) (UriParams uri)
              = Inr (Inl \<lparr>err_code = mcpErrors INTERNAL_ERROR,
                           err_message = ''Resource mimeType not set'',
                           err_data = Some (JObj [(''uri'', JStr uri)])\<rparr>))
       \<and> ((\<forall>s. returned \<noteq> RetValue (JStr s)) \<and> (\<forall>b. returned \<noteq> RetBinary b) \<longrightarrow>
            resources_read (MCPHandler_new server event domain sid) (UriParams uri)
              = Inr (Inl (mcpError RESOURCE_NOT_FOUND)))"
proof -
  have "rs \<noteq> []"
    using read_target_mem [OF assms(3)] by (auto simp: Object_values_def)
  then have ne: "non_empty (srv_resources server)"
    by (simp add: assms(1) non_empty_def Object_keys_def)
  have rd: "resources_read (MCPHandler_new server event domain sid) (UriParams uri)
      = map_sum id (map_sum id ReadResource) (Resource_call r uri sid)"
    using resources_read_plain [OF disjI1 [OF ne] assms(2)] assms(1,3)
    by (simp add: or_empty_def)
  have a: "returned = RetValue (JStr s) \<Longrightarrow> Resource_call r uri sid =
      Inr (Inr \<lparr>contents = [\<lparr>rc_uri = uri, rc_mimeType = res_type r, rc_text = s, rc_meta = None\<rparr>]\<rparr>)" for s
    using assms(4,5) by (simp add: Resource_call_def)
  have b: "returned = RetBinary b \<Longrightarrow> res_type r = None \<Longrightarrow> Resource_call r uri sid =
      Inr (Inl \<lparr>err_code = mcpErrors INTERNAL_ERROR,
                           err_message = ''Resource mimeType not set'',
                           err_data = Some (JObj [(''uri'', JStr uri)])\<rparr>)" for b
    using assms(4,5)
    by (simp add: Resource_call_def resource_error_def mcpError'_def opt_str_or_def str_or_def)
  have c: "(\<forall>s. returned \<noteq> RetValue (JStr s)) \<Longrightarrow> (\<forall>b. returned \<noteq> RetBinary b) \<Longrightarrow>
      Resource_call r uri sid = Inr (Inl (mcpError RESOURCE_NOT_FOUND))"
    using assms(4,5)
    by (cases returned)
       (auto simp: Resource_call_def resource_error_def split: jsval.splits)
  show ?thesis
    using a b c by (simp add: rd)
qed

lemma ex_resource_simps [simp]:
  "res_uri (ex_resource uri type returned) = Some uri"
  "res_type (ex_resource uri type returned) = type"
  "res_handler (ex_resource uri type returned) = Some (\<lambda>p. Inr returned)"
  by (simp_all add: ex_resource_def)

theorem read_dispatch_order_witness:
  "resources_read (ex_handler ex_resource_server) (UriParams ''file:///logo'')
     = map_sum id (map_sum id ReadResource)
         (Resource_call (ex_resource ''file:///logo'' None (RetBinary (Uint8Array [0x48, 0x69])))
            ''file:///logo'' ''s1'')
   \<and> resources_read (ex_handler ex_resource_server) (UriParams ''file:///elsewhere'')
     = Inr (Inr (ReadResource \<lparr>contents =
         [\<lparr>rc_uri = ''file:///elsewhere'', rc_mimeType = Some ''text/plain'',
           rc_text = ''profile'', rc_meta = None\<rparr>]\<rparr>))
   \<and> resources_read (ex_handler ex_plain_server) (UriParams ''file:///elsewhere'')
     = Inr (Inl (mcpError RESOURCE_NOT_FOUND))"
proof -
  let ?ev = "ex_post (Some ''s1'') ''tools/call'' NoParams"
  note t = read_dispatch_order [where event = ?ev and domain = "''http://localhost''"
      and sid = "''s1''", OF _ _ refl]
  have ne: "non_empty (srv_resources ex_resource_server) \<or> non_empty (srv_widgets ex_resource_server)"
    "non_empty (srv_resources ex_plain_server) \<or> non_empty (srv_widgets ex_plain_server)"
    by (simp_all add: ex_resource_server_def ex_plain_server_def ex_resources_def non_empty_def
          Object_keys_def)
  have w: "\<not> startsWith ''file:///logo'' ''widget://''"
    "\<not> startsWith ''file:///elsewhere'' ''widget://''"
    by (simp_all add: startsWith_def)
  have a: "resources_read (ex_handler ex_resource_server) (UriParams ''file:///logo'')
     = map_sum id (map_sum id ReadResource)
         (Resource_call (ex_resource ''file:///logo'' None (RetBinary (Uint8Array [0x48, 0x69])))
            ''file:///logo'' ''s1'')"
    unfolding ex_handler_def
    by (rule t [OF ne(1) w(1), THEN conjunct1, rule_format,
          where pre = "[snd (ex_resources ! 0)]" and post = "map snd (drop 2 ex_resources)"])
       (simp add: ex_resource_server_def ex_resources_def or_empty_def Object_values_def)
  have b: "resources_read (ex_handler ex_resource_server) (UriParams ''file:///elsewhere'')
     = map_sum id (map_sum id ReadResource)
         (Resource_call (ex_resource ''users://{id}/profile'' (Some ''text/plain'')
             (RetValue (JStr ''profile''))) ''file:///elsewhere'' ''s1'')"
    unfolding ex_handler_def
    by (rule t [OF ne(1) w(2), THEN conjunct2, THEN conjunct1, rule_format,
          where pre = "map snd (take 3 ex_resources)" and post = "[]"])
       (simp add: ex_resource_server_def ex_resources_def or_empty_def Object_values_def
          opt_str_or_def str_or_def brace_here_def)
  have c: "resources_read (ex_handler ex_plain_server) (UriParams ''file:///elsewhere'')
     = Inr (Inl (mcpError RESOURCE_NOT_FOUND))"
    unfolding ex_handler_def
    by (rule t [OF ne(2) w(2), THEN conjunct2, THEN conjunct2, rule_format])
       (auto simp: ex_plain_server_def ex_resource_server_def ex_resources_def or_empty_def
          Object_values_def opt_str_or_def str_or_def brace_here_def)
  show ?thesis
    using a b c by (simp add: Resource_call_def)
qed

text \<open>
  C7 as stated fails on a server without resources and widgets: there the read is answered
  with METHOD_NOT_FOUND by the gate, although no resource matches and none is a template.
\<close>

theorem empty_server_read_counterexample:
  "resources_read (ex_handler ex_empty_server) (UriParams ''file:///notes'')
     = Inr (Inl (mcpError METHOD_NOT_FOUND))
   \<and> \<not> startsWith ''file:///notes'' ''widget://''
   \<and> Object_values (or_empty (srv_resources ex_empty_server)) = []
   \<and> mcpError METHOD_NOT_FOUND \<noteq> mcpError RESOURCE_NOT_FOUND"
  by (simp add: resources_read_def ex_handler_def ex_empty_server_def non_empty_def
        Object_keys_def Object_values_def or_empty_def startsWith_def mcpError'_def)

theorem resource_return_shapes_witness:
  "resources_read (ex_handler ex_resource_server) (UriParams ''file:///notes'')
     = Inr (Inr (ReadResource \<lparr>contents =
         [\<lparr>rc_uri = ''file:///notes'', rc_mimeType = Some ''text/plain'',
           rc_text = ''content'', rc_meta = None\<rparr>]\<rparr>))
   \<and> resources_read (ex_handler ex_resource_server) (UriParams ''file:///logo'')
     = Inr (Inl \<lparr>err_code = mcpErrors INTERNAL_ERROR,
                  err_message = ''Resource mimeType not set'',
                  err_data = Some (JObj [(''uri'', JStr ''file:///logo'')])\<rparr>)
   \<and> resources_read (ex_handler ex_resource_server) (UriParams ''file:///count'')
     = Inr (Inl (mcpError RESOURCE_NOT_FOUND))"
proof -
  let ?ev = "ex_post (Some ''s1'') ''tools/call'' NoParams"
  note t = resource_return_shapes [where server = ex_resource_server and rs = ex_resources
      and event = ?ev and domain = "''http://localhost''" and sid = "''s1''"]
  have s: "srv_resources ex_resource_server = Some ex_resources"
    by (simp add: ex_resource_server_def)
  have tg: "read_target (Object_values ex_resources) ''file:///notes'' = Some (snd (ex_resources ! 0))"
    "read_target (Object_values ex_resources) ''file:///logo'' = Some (snd (ex_resources ! 1))"
    "read_target (Object_values ex_resources) ''file:///count'' = Some (snd (ex_resources ! 2))"
    by (simp_all add: read_target_def Object_values_def ex_resources_def)
  have a: "resources_read (ex_handler ex_resource_server) (UriParams ''file:///notes'')
     = Inr (Inr (ReadResource \<lparr>contents =
         [\<lparr>rc_uri = ''file:///notes'', rc_mimeType = Some ''text/plain'',
           rc_text = ''content'', rc_meta = None\<rparr>]\<rparr>))"
    using t [OF s _ tg(1), where returned = "RetValue (JStr ''content'')"
        and h = "\<lambda>p. Inr (RetValue (JStr ''content''))"]
    by (simp add: ex_handler_def startsWith_def ex_resources_def)
  have b: "resources_read (ex_handler ex_resource_server) (UriParams ''file:///logo'')
     = Inr (Inl \<lparr>err_code = mcpErrors INTERNAL_ERROR,
                  err_message = ''Resource mimeType not set'',
                  err_data = Some (JObj [(''uri'', JStr ''file:///logo'')])\<rparr>)"
    using t [OF s _ tg(2), where returned = "RetBinary (Uint8Array [0x48, 0x69])"
        and h = "\<lambda>p. Inr (RetBinary (Uint8Array [0x48, 0x69]))"]
    by (simp add: ex_handler_def startsWith_def ex_resources_def)
  have c: "resources_read (ex_handler ex_resource_server) (UriParams ''file:///count'')
     = Inr (Inl (mcpError RESOURCE_NOT_FOUND))"
    using t [OF s _ tg(3), where returned = "RetValue (JNum 42)"
        and h = "\<lambda>p. Inr (RetValue (JNum 42))"]
    by (simp add: ex_handler_def startsWith_def ex_resources_def)
  show ?thesis using a b c by simp
qed

section \<open>Reading widgets\<close>

lemma split_from_first:
  "\<exists>p rest. split_from sep acc s = (rev acc @ p) # rest \<and> prefix p s"
proof (induction sep acc s rule: split_from.induct)
  case (1 sep acc)
  then show ?case by simp
next
  case (2 sep acc c cs)
  show ?case
  proof (cases "sep \<noteq> [] \<and> prefix sep (c # cs)")
    case True
    then show ?thesis
      by (intro exI [of _ "[]"] exI [of _ "split_from sep [] (drop (length sep) (c # cs))"])
         simp
  next
    case False
    with 2(2) obtain p rest where "split_from sep (c # acc) cs = (rev (c # acc) @ p) # rest"
      "prefix p cs" by blast
    with False show ?thesis by (intro exI [of _ "c # p"] exI [of _ rest]) simp
  qed
qed

lemma split_from_char_first:
  "\<exists>rest. split_from [c] acc s = (rev acc @ takeWhile (\<lambda>x. x \<noteq> c) s) # rest"
proof (induction s arbitrary: acc)
  case Nil
  then show ?case by simp
next
  case (Cons a s)
  show ?case
  proof (cases "a = c")
    case True
    then show ?thesis by simp
  next
    case False
    then show ?thesis using Cons.IH [of "a # acc"] by simp
  qed
qed

lemma split_from_without:
  "hd sep \<notin> set s \<Longrightarrow> split_from sep acc s = [rev acc @ s]"
  by (induction s arbitrary: acc) (auto simp: prefix_def Cons_eq_append_conv)

lemma prefix_takeWhile: "prefix p q \<Longrightarrow> prefix (takeWhile Q p) (takeWhile Q q)"
proof -
  assume "prefix p q"
  then obtain r where q: "q = p @ r" by (auto simp: prefix_def)
  show ?thesis
  proof (cases "\<forall>x \<in> set p. Q x")
    case True
    then have e: "takeWhile Q p = p" by (simp add: takeWhile_eq_all_conv)
    have "takeWhile Q q = p @ takeWhile Q r"
      using True by (simp add: q takeWhile_append2)
    then show ?thesis unfolding e by simp
  next
    case False
    then obtain x where "x \<in> set p" "\<not> Q x" by blast
    then have "takeWhile Q (p @ r) = takeWhile Q p" by (rule takeWhile_append1)
    then show ?thesis by (simp add: q)
  qed
qed

lemma takeWhile_before_dot:
  "prefix (takeWhile (\<lambda>x. x \<noteq> CHR ''.'') (s @ ''.js'')) s"
  by (induction s) auto

lemma prefix_includes: "prefix t s \<Longrightarrow> includes_str s t"
  by (cases s) auto

lemma split_widget_uri:
  "split (''widget://'' @ rest) ''//'' = ''widget:'' # split_from ''//'' [] rest"
  by (simp add: split_def)

lemma widget_token_prefix:
  "\<exists>token. widget_token (''widget://'' @ ident @ ''.js'') = Some token \<and> prefix token ident
     \<and> (CHR ''/'' \<notin> set ident \<and> CHR ''.'' \<notin> set ident \<longrightarrow> token = ident)"
proof -
  obtain p rest where p: "split_from ''//'' [] (ident @ ''.js'') = p # rest"
    "prefix p (ident @ ''.js'')"
    using split_from_first [of "''//''" "[]" "ident @ ''.js''"] by auto
  obtain rest' where t: "split_from ''.'' [] p = takeWhile (\<lambda>x. x \<noteq> CHR ''.'') p # rest'"
    using split_from_char_first [of "CHR ''.''" "[]" p] by auto
  let ?tok = "takeWhile (\<lambda>x. x \<noteq> CHR ''.'') p"
  have w: "widget_token (''widget://'' @ ident @ ''.js'') = Some ?tok"
    using p(1) t by (simp add: widget_token_def split_widget_uri at_index_def split_def)
  have "prefix ?tok (takeWhile (\<lambda>x. x \<noteq> CHR ''.'') (ident @ ''.js''))"
    by (rule prefix_takeWhile [OF p(2)])
  then have pre: "prefix ?tok ident"
    using takeWhile_before_dot [of ident] by (rule prefix_order.trans)
  have "?tok = ident" if "CHR ''/'' \<notin> set ident" "CHR ''.'' \<notin> set ident"
  proof -
    have "split_from ''//'' [] (ident @ ''.js'') = [ident @ ''.js'']"
      using that(1) by (subst split_from_without) auto
    with p(1) have "p = ident @ ''.js''" by simp
    moreover have "takeWhile (\<lambda>x. x \<noteq> CHR ''.'') (ident @ ''.js'') = ident"
      using that(2) by (subst takeWhile_append2) auto
    ultimately show ?thesis by simp
  qed
  with w pre show ?thesis by blast
qed

text \<open>
  C5, as amended. For a registered widget with identifier \<open>id\<close>, a resources/read of
  \<open>widget://id.js\<close> takes from the uri the token up to the first \<open>.\<close> or \<open>//\<close> after
  the scheme, which is a prefix of \<open>id\<close> (and \<open>id\<close> itself when \<open>id\<close> has no \<open>.\<close> and no
  \<open>/\<close>), and answers with the read result of the first registered widget whose identifier
  contains the token. That result has a single content entry with MIME type
  \<open>text/html+skybridge\<close>. The widget is the one with identifier \<open>id\<close> when no widget
  registered before it has an identifier containing the token.
\<close>

theorem widget_read_first_match:
  assumes "srv_widgets server = Some ws" and "w \<in> set (Object_values ws)"
  shows "\<exists>w' token.
      widget_token (''widget://'' @ widget_id w @ ''.js'') = Some token
    \<and> prefix token (widget_id w)
    \<and> (CHR ''/'' \<notin> set (widget_id w) \<and> CHR ''.'' \<notin> set (widget_id w) \<longrightarrow> token = widget_id w)
    \<and> find (\<lambda>x. includes_str (widget_id x) token) (Object_values ws) = Some w'
    \<and> resources_read (MCPHandler_new server event domain sid)
          (UriParams (''widget://'' @ widget_id w @ ''.js''))
        = Inr (Inr (ReadResource (Widget_result w' domain)))
    \<and> map rc_mimeType (contents (Widget_result w' domain)) = [Some ''text/html+skybridge'']
    \<and> (\<forall>pre post. Object_values ws = pre @ w # post
           \<and> (\<forall>x \<in> set pre. \<not> includes_str (widget_id x) token) \<longrightarrow> w' = w)"
proof -
  let ?uri = "''widget://'' @ widget_id w @ ''.js''"
  obtain token where tok: "widget_token ?uri = Some token" "prefix token (widget_id w)"
    "CHR ''/'' \<notin> set (widget_id w) \<and> CHR ''.'' \<notin> set (widget_id w) \<longrightarrow> token = widget_id w"
    using widget_token_prefix [of "widget_id w"] by blast
  let ?P = "\<lambda>x. includes_str (widget_id x) token"
  have "?P w" using tok(2) by (rule prefix_includes)
  with assms(2) have "find ?P (Object_values ws) \<noteq> None"
    by (auto simp: find_None_iff)
  then obtain w' where w': "find ?P (Object_values ws) = Some w'" by blast
  have "ws \<noteq> []" using assms(2) by (auto simp: Object_values_def)
  then have ne: "non_empty (srv_widgets server)"
    by (simp add: assms(1) non_empty_def Object_keys_def)
  have sw: "startsWith ?uri ''widget://''" by (simp add: startsWith_def)
  have rd: "resources_read (MCPHandler_new server event domain sid) (UriParams ?uri)
        = Inr (Inr (ReadResource (Widget_result w' domain)))"
    using ne sw tok(1) w' assms(1)
    by (simp add: resources_read_def or_empty_def del: append.simps)
  have mt: "map rc_mimeType (contents (Widget_result w' domain)) = [Some ''text/html+skybridge'']"
    by (simp add: Widget_result_def)
  have fst: "w' = w" if "Object_values ws = pre @ w # post"
    "\<forall>x \<in> set pre. \<not> ?P x" for pre post
    using find_split [OF that(1) \<open>?P w\<close> that(2)] w' by simp
  have fst': "\<forall>pre post. Object_values ws = pre @ w # post
           \<and> (\<forall>x \<in> set pre. \<not> ?P x) \<longrightarrow> w' = w"
    using fst by blast
  show ?thesis
    by (rule exI [of _ w'], rule exI [of _ token]) (intro conjI tok w' rd mt fst')
qed

theorem widget_read_first_match_witness:
  "resources_read (ex_handler ex_widget_server) (UriParams ''widget://greeting.js'')
     = Inr (Inr (ReadResource (Widget_result ex_greeting ''http://localhost'')))
   \<and> map rc_mimeType (contents (Widget_result ex_greeting ''http://localhost''))
     = [Some ''text/html+skybridge'']"
proof -
  let ?ws = "[(''greeting'', ex_greeting)]"
  let ?h = "MCPHandler_new ex_widget_server (ex_post (Some ''s1'') ''tools/call'' NoParams)
              ''http://localhost'' ''s1''"
  let ?B = "\<lambda>w' token.
      widget_token (''widget://'' @ widget_id ex_greeting @ ''.js'') = Some token
    \<and> prefix token (widget_id ex_greeting)
    \<and> (CHR ''/'' \<notin> set (widget_id ex_greeting) \<and> CHR ''.'' \<notin> set (widget_id ex_greeting)
         \<longrightarrow> token = widget_id ex_greeting)
    \<and> find (\<lambda>x. includes_str (widget_id x) token) (Object_values ?ws) = Some w'
    \<and> resources_read ?h (UriParams (''widget://'' @ widget_id ex_greeting @ ''.js''))
        = Inr (Inr (ReadResource (Widget_result w' ''http://localhost'')))
    \<and> map rc_mimeType (contents (Widget_result w' ''http://localhost''))
        = [Some ''text/html+skybridge'']
    \<and> (\<forall>pre post. Object_values ?ws = pre @ ex_greeting # post
           \<and> (\<forall>x \<in> set pre. \<not> includes_str (widget_id x) token) \<longrightarrow> w' = ex_greeting)"
  have h: "srv_widgets ex_widget_server = Some ?ws" "ex_greeting \<in> set (Object_values ?ws)"
    by (simp_all add: ex_widget_server_def Object_values_def)
  have "\<exists>w' token. ?B w' token"
    by (rule widget_read_first_match [OF h])
  then obtain w' where "\<exists>token. ?B w' token" ..
  then obtain token where b: "?B w' token" ..
  from b have r: "resources_read ?h (UriParams (''widget://'' @ widget_id ex_greeting @ ''.js''))
        = Inr (Inr (ReadResource (Widget_result w' ''http://localhost'')))"
    by (elim conjE)
  from b have m: "map rc_mimeType (contents (Widget_result w' ''http://localhost''))
        = [Some ''text/html+skybridge'']"
    by (elim conjE)
  from b have f: "\<forall>pre post. Object_values ?ws = pre @ ex_greeting # post
           \<and> (\<forall>x \<in> set pre. \<not> includes_str (widget_id x) token) \<longrightarrow> w' = ex_greeting"
    by (elim conjE)
  have "Object_values ?ws = [] @ ex_greeting # []"
    by (simp add: Object_values_def)
  with f have "w' = ex_greeting"
    by (elim allE [of _ "[]"] impE) simp_all
  with r m show ?thesis
    by (simp add: ex_greeting_def ex_handler_def)
qed

text \<open>
  C5 as stated fails when an earlier widget's identifier contains the token: with the
  widgets \<open>greeting2\<close> and \<open>greeting\<close> registered in this order, the read of
  \<open>widget://greeting.js\<close> returns the document of \<open>greeting2\<close>.
\<close>

theorem widget_read_other_widget_counterexample:
  "resources_read (ex_handler ex_two_widgets_server) (UriParams ''widget://greeting.js'')
     = Inr (Inr (ReadResource (Widget_result ex_greeting2 ''http://localhost'')))
   \<and> map rc_uri (contents (Widget_result ex_greeting2 ''http://localhost''))
     = [''widget://greeting2'']
   \<and> Object_values (or_empty (srv_widgets ex_two_widgets_server)) = [ex_greeting2, ex_greeting]
   \<and> widget_id ex_greeting = ''greeting''
   \<and> Widget_result ex_greeting2 ''http://localhost'' \<noteq> Widget_result ex_greeting ''http://localhost''"
proof -
  have tok: "widget_token ''widget://greeting.js'' = Some ''greeting''"
    by (simp add: widget_token_def split_def at_index_def)
  have a: "resources_read (ex_handler ex_two_widgets_server) (UriParams ''widget://greeting.js'')
     = Inr (Inr (ReadResource (Widget_result ex_greeting2 ''http://localhost'')))"
    by (simp add: resources_read_def ex_handler_def ex_two_widgets_server_def non_empty_def
          Object_keys_def Object_values_def or_empty_def startsWith_def tok)
       (simp add: ex_greeting2_def)
  have b: "map rc_uri (contents (Widget_result ex_greeting2 ''http://localhost''))
     = [''widget://greeting2'']"
    "map rc_uri (contents (Widget_result ex_greeting ''http://localhost''))
     = [''widget://greeting'']"
    by (simp_all add: Widget_result_def ex_greeting2_def ex_greeting_def)
  have c: "Widget_result ex_greeting2 ''http://localhost'' \<noteq> Widget_result ex_greeting ''http://localhost''"
  proof
    assume "Widget_result ex_greeting2 ''http://localhost'' = Widget_result ex_greeting ''http://localhost''"
    then have "map rc_uri (contents (Widget_result ex_greeting2 ''http://localhost''))
      = map rc_uri (contents (Widget_result ex_greeting ''http://localhost''))" by simp
    then show False unfolding b by simp
  qed
  show ?thesis
    using a b(1) c
    by (simp add: ex_two_widgets_server_def or_empty_def Object_values_def ex_greeting_def)
qed

section \<open>Session header\<close>

lemma header_errorResponse:
  "header (errorResponse error sid) ''Mcp-Session-Id'' = Some sid"
  by (simp add: errorResponse_def header_def Let_def)

lemma header_respond: "header (respond sid i out) ''Mcp-Session-Id'' = Some sid"
proof (cases out)
  case (Inl e)
  then show ?thesis by (simp add: respond_def header_errorResponse)
next
  case (Inr x)
  then show ?thesis
    by (cases x) (simp_all add: respond_def header_errorResponse, simp add: header_def)
qed

lemma node_truthy_always: "node_truthy n"
  by (cases n) simp_all

text \<open>
  After the branches for OPTIONS, GET and DELETE the hook either lets an exception escape
  or answers through \<open>errorResponse\<close> or the success response, both with the session header.
\<close>

lemma handleMCP_rpc_cases:
  assumes "startsWith (ev_pathname event) ''/mcp''"
    and "ev_method event \<notin> {''OPTIONS'', ''GET'', ''DELETE''}"
  shows "handleMCP ext server event = Escapes
       \<or> (\<exists>error. handleMCP ext server event
              = Responds (errorResponse error (session_of ext event)))
       \<or> (\<exists>i out. handleMCP ext server event
              = Responds (respond (session_of ext event) i out))"
proof (cases "ev_body event")
  case NotJson
  with assms show ?thesis by (auto simp: handleMCP_def Let_def)
next
  case NotRequest
  with assms show ?thesis by (auto simp: handleMCP_def Let_def)
next
  case (Request rpc)
  show ?thesis
  proof (cases "walk (ext_builtin ext) mpcHandler (split (rpc_method rpc) ''/'')")
    case None
    with assms Request show ?thesis by (auto simp: handleMCP_def Let_def)
  next
    case (Some target)
    show ?thesis
    proof (cases target)
      case (Handler node)
      with assms Request Some show ?thesis
        by (auto simp: handleMCP_def Let_def node_truthy_always)
    next
      case (Builtin b)
      with assms Request Some show ?thesis
        by (cases "bi_truthy b") (auto simp: handleMCP_def Let_def)
    qed
  qed
qed

lemma handleMCP_rpc_responds:
  assumes "startsWith (ev_pathname event) ''/mcp''"
    and "ev_method event \<notin> {''OPTIONS'', ''GET'', ''DELETE''}"
    and "ev_body event = NotJson
         \<or> (\<exists>rpc target. ev_body event = Request rpc
               \<and> walk (ext_builtin ext) mpcHandler (split (rpc_method rpc) ''/'') = Some target)"
  shows "\<exists>r. handleMCP ext server event = Responds r"
  using assms(3)
proof
  assume "ev_body event = NotJson"
  with assms(1,2) show ?thesis by (auto simp: handleMCP_def Let_def)
next
  assume "\<exists>rpc target. ev_body event = Request rpc
               \<and> walk (ext_builtin ext) mpcHandler (split (rpc_method rpc) ''/'') = Some target"
  then obtain rpc target where b: "ev_body event = Request rpc"
    and w: "walk (ext_builtin ext) mpcHandler (split (rpc_method rpc) ''/'') = Some target"
    by auto
  show ?thesis
  proof (cases target)
    case (Handler node)
    with assms(1,2) b w show ?thesis
      by (auto simp: handleMCP_def Let_def node_truthy_always)
  next
    case (Builtin bi)
    with assms(1,2) b w show ?thesis
      by (cases "bi_truthy bi") (auto simp: handleMCP_def Let_def)
  qed
qed

text \<open>
  C8, as amended. Every response that the endpoint gives to a request other than OPTIONS,
  GET and DELETE (success responses and JSON-RPC error responses alike, also when the
  method path leads to a built-in value of the runtime) carries the \<open>Mcp-Session-Id\<close>
  header with the session identifier, which is the caller's header when that is present and
  not empty and the freshly generated identifier otherwise; the endpoint does respond
  whenever the body is not JSON or is a request whose method path is resolved without an
  exception. Every GET and DELETE request is answered with the fixed rejection, status
  405, whose only header is \<open>Content-Type\<close>.
\<close>

theorem session_header_on_rpc_responses:
  assumes "startsWith (ev_pathname event) ''/mcp''"
  shows "(ev_method event \<notin> {''OPTIONS'', ''GET'', ''DELETE''} \<longrightarrow>
            (\<forall>r. handleMCP ext server event = Responds r \<longrightarrow>
                 header r ''Mcp-Session-Id'' = Some (session_of ext event)))
       \<and> (ev_method event \<notin> {''OPTIONS'', ''GET'', ''DELETE''}
            \<and> (ev_body event = NotJson
                 \<or> (\<exists>rpc target. ev_body event = Request rpc
                       \<and> walk (ext_builtin ext) mpcHandler (split (rpc_method rpc) ''/'')
                           = Some target)) \<longrightarrow>
          (\<exists>r. handleMCP ext server event = Responds r))
       \<and> session_of ext event =
           (case ev_session_header event of
              None \<Rightarrow> ext_randomUUID ext
            | Some s \<Rightarrow> if s = [] then ext_randomUUID ext else s)
       \<and> (ev_method event \<in> {''GET'', ''DELETE''} \<longrightarrow>
            handleMCP ext server event = Responds handleGetDeleteMethodNotAllowed)
       \<and> status handleGetDeleteMethodNotAllowed = 405
       \<and> headers handleGetDeleteMethodNotAllowed = [(''Content-Type'', ''application/json'')]
       \<and> header handleGetDeleteMethodNotAllowed ''Mcp-Session-Id'' = None"
proof (intro conjI impI allI)
  fix r
  assume m: "ev_method event \<notin> {''OPTIONS'', ''GET'', ''DELETE''}"
    and r: "handleMCP ext server event = Responds r"
  from handleMCP_rpc_cases [OF assms m, where ext = ext and server = server] r
  show "header r ''Mcp-Session-Id'' = Some (session_of ext event)"
    by (auto simp: header_errorResponse header_respond)
next
  assume "ev_method event \<notin> {''OPTIONS'', ''GET'', ''DELETE''}
            \<and> (ev_body event = NotJson
                 \<or> (\<exists>rpc target. ev_body event = Request rpc
                       \<and> walk (ext_builtin ext) mpcHandler (split (rpc_method rpc) ''/'')
                           = Some target))"
  then show "\<exists>r. handleMCP ext server event = Responds r"
    using handleMCP_rpc_responds [OF assms, where ext = ext and server = server] by blast
next
  show "session_of ext event =
           (case ev_session_header event of
              None \<Rightarrow> ext_randomUUID ext
            | Some s \<Rightarrow> if s = [] then ext_randomUUID ext else s)"
    by (simp add: session_of_def opt_str_or_def str_or_def split: option.splits)
next
  assume "ev_method event \<in> {''GET'', ''DELETE''}"
  then show "handleMCP ext server event = Responds handleGetDeleteMethodNotAllowed"
    using assms by (auto simp: handleMCP_def)
next
  show "status handleGetDeleteMethodNotAllowed = 405"
    by (simp add: handleGetDeleteMethodNotAllowed_def)
  show "headers handleGetDeleteMethodNotAllowed = [(''Content-Type'', ''application/json'')]"
    by (simp add: handleGetDeleteMethodNotAllowed_def)
  show "header handleGetDeleteMethodNotAllowed ''Mcp-Session-Id'' = None"
    by (simp add: handleGetDeleteMethodNotAllowed_def header_def)
qed

lemma walk_toString:
  "walk ex_builtin mpcHandler (split ''toString'' ''/'') =
     Some (Builtin \<lparr>bi_truthy = True,
                     bi_has = (\<lambda>key. Some (key \<in> set function_keys)),
                     bi_call = (\<lambda>ps event. Inr (JStr ''[object Undefined]''))\<rparr>)"
  by (simp add: walk_defs ex_builtin_def)

lemma walk_initialize_length:
  "walk ex_builtin mpcHandler (split ''initialize/length'' ''/'') =
     Some (Builtin \<lparr>bi_truthy = False,
                     bi_has = (\<lambda>key. None),
                     bi_call = (\<lambda>ps event. Inl (ThrownError ''TypeError''))\<rparr>)"
  by (simp add: walk_defs ex_builtin_def function_keys_def)

theorem session_header_on_rpc_responses_witness:
  "(\<exists>r. handleMCP ex_ext ex_empty_server (ex_post (Some ''s1'') ''ping'' NoParams) = Responds r
        \<and> status r = 200 \<and> header r ''Mcp-Session-Id'' = Some ''s1'')
   \<and> (\<exists>r. handleMCP ex_ext ex_empty_server (ex_post None ''tools/list'' NoParams) = Responds r
        \<and> status r = 400 \<and> header r ''Mcp-Session-Id'' = Some ''generated-uuid'')
   \<and> (\<exists>r. handleMCP ex_ext ex_empty_server (ex_post (Some ''s1'') ''toString'' NoParams)
          = Responds r
        \<and> status r = 200
        \<and> body r = ResultBody (JNum 1) (BuiltinResult (JStr ''[object Undefined]''))
        \<and> header r ''Mcp-Session-Id'' = Some ''s1'')
   \<and> (\<exists>r. handleMCP ex_ext ex_empty_server
            (ex_post (Some ''s1'') ''initialize/length'' NoParams) = Responds r
        \<and> status r = 400
        \<and> body r = ErrorBody (mcpErrors METHOD_NOT_FOUND) ''Method not found'' None
        \<and> header r ''Mcp-Session-Id'' = Some ''s1'')
   \<and> handleMCP ex_ext ex_empty_server ex_get = Responds handleGetDeleteMethodNotAllowed
   \<and> handleMCP ex_ext ex_empty_server ex_delete = Responds handleGetDeleteMethodNotAllowed
   \<and> header handleGetDeleteMethodNotAllowed ''Mcp-Session-Id'' = None"
proof -
  note t = session_header_on_rpc_responses [where ext = ex_ext and server = ex_empty_server]
  have bi: "ext_builtin ex_ext = ex_builtin" by (simp add: ex_ext_def)
  have pa: "startsWith (ev_pathname (ex_post s m p)) ''/mcp''"
    "ev_method (ex_post s m p) \<notin> {''OPTIONS'', ''GET'', ''DELETE''}" for s m p
    by (simp_all add: startsWith_def)
  note t1 = t [OF pa(1), THEN conjunct1, rule_format, OF pa(2)]
  let ?ra = "\<lparr>status = 200,
           headers = [(''Content-Type'', ''application/json''), (''Mcp-Session-Id'', ''s1'')],
           body = ResultBody (JNum 1) EmptyResult\<rparr>"
  let ?rc = "\<lparr>status = 200,
           headers = [(''Content-Type'', ''application/json''), (''Mcp-Session-Id'', ''s1'')],
           body = ResultBody (JNum 1) (BuiltinResult (JStr ''[object Undefined]''))\<rparr>"
  have a: "handleMCP ex_ext ex_empty_server (ex_post (Some ''s1'') ''ping'' NoParams)
      = Responds ?ra"
    by (simp add: handleMCP_def startsWith_def Let_def walk_defs respond_def)
  have b: "handleMCP ex_ext ex_empty_server (ex_post None ''tools/list'' NoParams)
      = Responds (errorResponse (Inl METHOD_NOT_FOUND) ''generated-uuid'')"
    by (simp add: handleMCP_def startsWith_def Let_def walk_defs respond_error gate_tools
          ex_empty_server_def non_empty_def Object_keys_def)
  have c: "handleMCP ex_ext ex_empty_server (ex_post (Some ''s1'') ''toString'' NoParams)
      = Responds ?rc"
    by (simp add: handleMCP_def startsWith_def Let_def bi walk_toString respond_def)
  have d: "handleMCP ex_ext ex_empty_server
            (ex_post (Some ''s1'') ''initialize/length'' NoParams)
      = Responds (errorResponse (Inl METHOD_NOT_FOUND) ''s1'')"
    by (simp add: handleMCP_def startsWith_def Let_def bi walk_initialize_length)
  from t1 [OF a] have a': "header ?ra ''Mcp-Session-Id'' = Some ''s1''" by simp
  from t1 [OF b]
  have b': "header (errorResponse (Inl METHOD_NOT_FOUND) ''generated-uuid'') ''Mcp-Session-Id''
      = Some ''generated-uuid''" by simp
  from t1 [OF c] have c': "header ?rc ''Mcp-Session-Id'' = Some ''s1''" by simp
  from t1 [OF d]
  have d': "header (errorResponse (Inl METHOD_NOT_FOUND) ''s1'') ''Mcp-Session-Id''
      = Some ''s1''" by simp
  have sb: "status (errorResponse (Inl METHOD_NOT_FOUND) sid) = 400"
    "body (errorResponse (Inl METHOD_NOT_FOUND) sid)
       = ErrorBody (mcpErrors METHOD_NOT_FOUND) ''Method not found'' None" for sid
    by (simp_all add: errorResponse_def Let_def mcpError'_def opt_str_or_def)
  have g: "startsWith (ev_pathname ex_get) ''/mcp''" "ev_method ex_get \<in> {''GET'', ''DELETE''}"
    "startsWith (ev_pathname ex_delete) ''/mcp''" "ev_method ex_delete \<in> {''GET'', ''DELETE''}"
    by (simp_all add: ex_get_def ex_delete_def startsWith_def)
  note tg = t [OF g(1), THEN conjunct2, THEN conjunct2, THEN conjunct2]
  note td = t [OF g(3), THEN conjunct2, THEN conjunct2, THEN conjunct2]
  from tg g(2) have e: "handleMCP ex_ext ex_empty_server ex_get
      = Responds handleGetDeleteMethodNotAllowed" by (elim conjE impE) simp_all
  from td g(4) have f: "handleMCP ex_ext ex_empty_server ex_delete
      = Responds handleGetDeleteMethodNotAllowed" by (elim conjE impE) simp_all
  from tg have h: "header handleGetDeleteMethodNotAllowed ''Mcp-Session-Id'' = None"
    by (elim conjE)
  show ?thesis
    using a' b' c' d' sb h unfolding a b c d e f by simp
qed

text \<open>
  C8 as stated fails for GET and DELETE: the fixed rejection is built before the session
  identifier is read, and it has no \<open>Mcp-Session-Id\<close> header although the caller sent one.
\<close>

theorem get_response_without_session_header_counterexample:
  "handleMCP ex_ext ex_empty_server ex_get = Responds handleGetDeleteMethodNotAllowed
   \<and> ev_session_header ex_get = Some ''s1''
   \<and> handleMCP ex_ext ex_empty_server ex_delete = Responds handleGetDeleteMethodNotAllowed
   \<and> ev_session_header ex_delete = Some ''s1''
   \<and> header handleGetDeleteMethodNotAllowed ''Mcp-Session-Id'' = None"
  by (simp add: handleMCP_def ex_get_def ex_delete_def startsWith_def
        handleGetDeleteMethodNotAllowed_def header_def)

end
